theory Spec2Isabelle
  imports Main "HOL-Library.Word" "HOL-Library.AList" "HOL-Library.Multiset"
begin

unbundle bit_operations_syntax

section \<open>The discovery server: data model\<close>

text \<open>
  The development follows \<^verbatim>\<open>main.go\<close> and \<^verbatim>\<open>types.go\<close>. Byte slices are lists of
  8-bit words, Go strings are HOL strings, \<^verbatim>\<open>int64\<close> epoch seconds are 64-bit words read
  as two's complement (\<open>sint\<close>), so that the subtraction \<^verbatim>\<open>nowSecs - seen\<close> wraps as in Go.
\<close>

type_synonym bytes = "8 word list"
type_synonym int64 = "64 word"
type_synonym int32 = "32 word"

text \<open>\<^verbatim>\<open>types.go\<close>: \<^verbatim>\<open>relay\<close>, \<^verbatim>\<open>address\<close>, \<^verbatim>\<open>addressList\<close>.\<close>

record relay =
  address :: string
  latency :: int32

record address =
  address :: string
  seen :: int64

record addressList =
  addresses :: "address list"
  relays :: "relay list"

text \<open>\<^verbatim>\<open>const cacheLimitSeconds = 3600\<close>\<close>

definition cacheLimitSeconds :: int64 where
  "cacheLimitSeconds = 3600"

text \<open>
  Go \<^verbatim>\<open>error\<close> values: \<^verbatim>\<open>io.EOF\<close>, the store's \<^verbatim>\<open>ErrNotFound\<close>, and any other error
  with its message. The code compares an error only with \<^verbatim>\<open>nil\<close> and with \<^verbatim>\<open>io.EOF\<close>.
\<close>

datatype error = EOF | ErrNotFound | Error string

subsection \<open>The record codec\<close>

text \<open>
  Modelled from the spec: the XDR codec of \<^verbatim>\<open>addressList\<close> (the generated methods
  \<^verbatim>\<open>MarshalXDR\<close> and \<^verbatim>\<open>UnmarshalXDR\<close>, which are not among the sources). The spec says
  that the Registry Store "owns the serialized record format for one device's known
  addresses and relays" and that "encoding must always succeed for well-formed in-memory
  values". The serialized form is kept abstract: a value of type \<open>xdr\<close> stands for the
  bytes that encode the record it carries, encoding always succeeds, and decoding gives
  the record back. The error result of \<^verbatim>\<open>MarshalXDR\<close> is kept in the type, so that the
  callers' error branches stay visible.
\<close>

datatype xdr = XDR addressList

definition MarshalXDR :: "addressList \<Rightarrow> error + xdr" where
  "MarshalXDR al = Inr (XDR al)"

fun UnmarshalXDR :: "xdr \<Rightarrow> addressList" where
  "UnmarshalXDR (XDR al) = al"

subsection \<open>The key-value store\<close>

text \<open>
  The store (goleveldb) is an external collaborator. It is modelled as an association
  list from keys to serialized records: \<^verbatim>\<open>Get\<close> fails with \<open>ErrNotFound\<close> on a missing
  key, \<^verbatim>\<open>Put\<close> replaces the value of a present key and adds a missing one, \<^verbatim>\<open>Delete\<close>
  removes the key, and an iterator walks a snapshot of the entries taken when it is
  created, so that writes made during the walk do not change what it visits.
\<close>

type_synonym leveldb = "(bytes \<times> xdr) list"

definition db_Get :: "leveldb \<Rightarrow> bytes \<Rightarrow> error + xdr" where
  "db_Get db key = (case map_of db key of None \<Rightarrow> Inl ErrNotFound | Some val \<Rightarrow> Inr val)"

definition db_Put :: "leveldb \<Rightarrow> bytes \<Rightarrow> xdr \<Rightarrow> leveldb" where
  "db_Put db key val = AList.update key val db"

definition db_Delete :: "leveldb \<Rightarrow> bytes \<Rightarrow> leveldb" where
  "db_Delete db key = AList.delete key db"

definition db_NewIterator :: "leveldb \<Rightarrow> (bytes \<times> xdr) list" where
  "db_NewIterator db = db"

section \<open>The expiry sweeper: \<^verbatim>\<open>clean\<close>\<close>

text \<open>
  The inner loop of \<^verbatim>\<open>clean\<close>:
  \<^verbatim>\<open>
  for i := 0; i < len(newAddrs); i++ {
      if nowSecs-newAddrs[i].seen > cacheLimitSeconds {
          newAddrs[i] = newAddrs[len(newAddrs)-1]
          newAddrs = newAddrs[:len(newAddrs)-1]
      }
  }
  \<close>
  An expired entry is overwritten by the last entry and the slice is shortened by one;
  the index is incremented in both branches. The slice shares its array with
  \<^verbatim>\<open>addrs.addresses\<close>, which is read again only for its length, so the sharing is not
  observable and the loop is a function on lists.
\<close>

function removeExpired :: "int64 \<Rightarrow> address list \<Rightarrow> nat \<Rightarrow> address list" where
  "removeExpired nowSecs newAddrs i =
     (if i < length newAddrs then
        (if sint cacheLimitSeconds < sint (nowSecs - seen (newAddrs ! i))
         then removeExpired nowSecs (butlast (newAddrs[i := last newAddrs])) (Suc i)
         else removeExpired nowSecs newAddrs (Suc i))
      else newAddrs)"
  by pat_completeness auto
termination
  by (relation "measure (\<lambda>(nowSecs, newAddrs, i). length newAddrs - i)") auto

declare removeExpired.simps [simp del]

text \<open>
  One pass of the outer \<^verbatim>\<open>for\<close> loop of \<^verbatim>\<open>clean\<close>, from the moment \<^verbatim>\<open>next\<close> has
  returned the sweep time: the walk over the iterator with the counters \<^verbatim>\<open>kept\<close> and
  \<^verbatim>\<open>deleted\<close> (one increment per record at most, so they are plain integers here), and
  the numbers written to the statistics line.
\<close>

record sweep =
  store :: leveldb
  kept :: int
  deleted :: int

fun cleanRecords :: "int64 \<Rightarrow> (bytes \<times> xdr) list \<Rightarrow> sweep \<Rightarrow> sweep" where
  "cleanRecords nowSecs [] s = s"
| "cleanRecords nowSecs ((key, val) # iter) s =
     (let addrs = UnmarshalXDR val;
          newAddrs = removeExpired nowSecs (addresses addrs) 0
      in if length newAddrs = 0
         then cleanRecords nowSecs iter
                (s\<lparr>store := db_Delete (store s) key, deleted := deleted s + 1\<rparr>)
         else if length newAddrs \<noteq> length (addresses addrs)
         then (case MarshalXDR (addrs\<lparr>addresses := newAddrs\<rparr>) of
                 Inl err \<Rightarrow> cleanRecords nowSecs iter s
               | Inr data \<Rightarrow>
                   cleanRecords nowSecs iter
                     (s\<lparr>store := db_Put (store s) key data, kept := kept s + 1\<rparr>))
         else cleanRecords nowSecs iter (s\<lparr>kept := kept s + 1\<rparr>))"

definition clean :: "int64 \<Rightarrow> leveldb \<Rightarrow> sweep" where
  "clean nowSecs db =
     cleanRecords nowSecs (db_NewIterator db) \<lparr>store = db, kept = 0, deleted = 0\<rparr>"

section \<open>The registry store: \<^verbatim>\<open>get\<close> and \<^verbatim>\<open>update\<close>\<close>

subsection \<open>The standard library: \<^verbatim>\<open>net/url\<close> and \<^verbatim>\<open>net\<close>\<close>

text \<open>
  The code calls \<^verbatim>\<open>url.Parse\<close>, \<^verbatim>\<open>URL.String\<close>, \<^verbatim>\<open>net.SplitHostPort\<close>,
  \<^verbatim>\<open>net.JoinHostPort\<close> and \<^verbatim>\<open>IP.String\<close> of the Go standard library. They are pure
  functions of their arguments and are taken as a parameter (a record of functions), so
  that what is proved of \<^verbatim>\<open>update\<close> and of the handlers holds for every behaviour of
  the library. \<open>URL\<close> has the fields of Go's \<^verbatim>\<open>url.URL\<close>; the code reads and assigns
  \<open>Host\<close> only.
\<close>

record URL =
  Scheme :: string
  Opaque :: string
  User :: "string option"
  Host :: string
  Path :: string
  RawQuery :: string
  Fragment :: string

record netlib =
  url_Parse :: "string \<Rightarrow> error + URL"
  URL_String :: "URL \<Rightarrow> string"
  net_SplitHostPort :: "string \<Rightarrow> error + (string \<times> string)"
  net_JoinHostPort :: "string \<Rightarrow> string \<Rightarrow> string"
  IP_String :: "bytes \<Rightarrow> string"

subsection \<open>The wire types: package \<^verbatim>\<open>discover\<close>\<close>

text \<open>
  The packets of \<^verbatim>\<open>github.com/syncthing/syncthing/lib/discover\<close> with their fields. The
  two magic numbers, the XDR codec of the packets and the text decoding of a device id
  (\<^verbatim>\<open>protocol.DeviceID.UnmarshalText\<close>) belong to those packages and are a parameter.
  \<^verbatim>\<open>UnmarshalXDR\<close> fills the packet in place and returns an error or \<^verbatim>\<open>nil\<close>: both
  the packet and the error are results, since \<^verbatim>\<open>handleAnnounceV2\<close> goes on with the
  packet when the error is \<^verbatim>\<open>io.EOF\<close>.
\<close>

record Relay =
  Address :: string
  Latency :: int32

record Device =
  ID :: bytes
  Addresses :: "string list"
  Relays :: "Relay list"

record Announce =
  Magic :: "32 word"
  This :: Device
  Extra :: "Device list"

record Query =
  Magic :: "32 word"
  DeviceID :: bytes

record wire =
  AnnouncementMagic :: "32 word"
  QueryMagic :: "32 word"
  Announce_UnmarshalXDR :: "bytes \<Rightarrow> Announce \<times> error option"
  Announce_MarshalXDR :: "Announce \<Rightarrow> error + bytes"
  Query_UnmarshalXDR :: "bytes \<Rightarrow> Query \<times> error option"
  DeviceID_UnmarshalText :: "bytes \<Rightarrow> error + bytes"

subsection \<open>\<^verbatim>\<open>get\<close>\<close>

definition get :: "leveldb \<Rightarrow> bytes \<Rightarrow> address list \<times> relay list" where
  "get db devid =
     (let addrs = (case db_Get db devid of
                     Inl err \<Rightarrow> \<lparr>addresses = [], relays = []\<rparr>
                   | Inr val \<Rightarrow> UnmarshalXDR val)
      in (addresses addrs, relays addrs))"

subsection \<open>\<^verbatim>\<open>update\<close>\<close>

text \<open>
  The inner loop of \<^verbatim>\<open>update\<close>, \<^verbatim>\<open>for i, exAddr := range newAddrs.addresses\<close>, for one
  new address. Its three exits are: \<^verbatim>\<open>continue nextAddr\<close> after a parse failure of the
  new address (the list is left as it is), \<^verbatim>\<open>continue nextAddr\<close> after the assignment
  \<^verbatim>\<open>newAddrs.addresses[i] = newAddr\<close>, and the end of the range, after which the new
  address is appended. The new address is parsed inside the loop body, as in the source.
\<close>

function mergeAddr :: "netlib \<Rightarrow> address \<Rightarrow> address list \<Rightarrow> nat \<Rightarrow> address list" where
  "mergeAddr lib newAddr exAddrs i =
     (if i < length exAddrs then
        (case url_Parse lib (address.address newAddr) of
           Inl err \<Rightarrow> exAddrs
         | Inr newAddrUri \<Rightarrow>
            (case net_SplitHostPort lib (Host newAddrUri) of
               Inl err \<Rightarrow> exAddrs
             | Inr (newAddrHost, newAddrPort) \<Rightarrow>
                (case url_Parse lib (address.address (exAddrs ! i)) of
                   Inl err \<Rightarrow> mergeAddr lib newAddr exAddrs (Suc i)
                 | Inr exAddrUri \<Rightarrow>
                    (case net_SplitHostPort lib (Host exAddrUri) of
                       Inl err \<Rightarrow> mergeAddr lib newAddr exAddrs (Suc i)
                     | Inr (exAddrHost, exAddrPort) \<Rightarrow>
                        if URL_String lib (exAddrUri\<lparr>Host := net_JoinHostPort lib exAddrHost ''22000''\<rparr>)
                           = URL_String lib (newAddrUri\<lparr>Host := net_JoinHostPort lib newAddrHost ''22000''\<rparr>)
                        then exAddrs[i := newAddr]
                        else mergeAddr lib newAddr exAddrs (Suc i)))))
      else exAddrs @ [newAddr])"
  by pat_completeness auto
termination
  by (relation "measure (\<lambda>(lib, newAddr, exAddrs, i). length exAddrs - i)") auto

declare mergeAddr.simps [simp del]

text \<open>The outer loop, \<^verbatim>\<open>nextAddr: for _, newAddr := range addrs\<close>.\<close>

fun mergeAddrs :: "netlib \<Rightarrow> address list \<Rightarrow> address list \<Rightarrow> address list" where
  "mergeAddrs lib [] exAddrs = exAddrs"
| "mergeAddrs lib (newAddr # addrs) exAddrs =
     mergeAddrs lib addrs (mergeAddr lib newAddr exAddrs 0)"

definition update :: "netlib \<Rightarrow> leveldb \<Rightarrow> bytes \<Rightarrow> address list \<Rightarrow> Relay list \<Rightarrow> leveldb" where
  "update lib db devid addrs rls =
     (let newAddrs = (case db_Get db devid of
                        Inl err \<Rightarrow> \<lparr>addresses = [], relays = []\<rparr>
                      | Inr val \<Rightarrow> UnmarshalXDR val);
          newAddrs = newAddrs\<lparr>addresses := mergeAddrs lib addrs (addresses newAddrs)\<rparr>;
          lrelays = map (\<lambda>rlay. \<lparr>relay.address = Address rlay, latency = Latency rlay\<rparr>) rls;
          newAddrs = newAddrs\<lparr>relays := lrelays\<rparr>
      in case MarshalXDR newAddrs of
           Inl err \<Rightarrow> db
         | Inr data \<Rightarrow> db_Put db devid data)"

section \<open>Global state\<close>

text \<open>
  The package-level variables of \<^verbatim>\<open>main.go\<close>. The flags \<^verbatim>\<open>lruSize\<close>, \<^verbatim>\<open>limitAvg\<close>
  and \<^verbatim>\<open>limitBurst\<close> (Go \<^verbatim>\<open>int\<close>) are set once by \<^verbatim>\<open>flag.Parse\<close>; the five counters
  and the limiter cache change while the server runs. \<^verbatim>\<open>debug\<close> only switches log
  output on, which is not modelled. The counters are reset by \<^verbatim>\<open>logStats\<close> and
  incremented by one per datagram at most; they are integers here.
\<close>

record flags =
  lruSize :: int
  limitAvg :: int
  limitBurst :: int

definition defaultFlags :: flags where
  "defaultFlags = \<lparr>lruSize = 1024, limitAvg = 1, limitBurst = 10\<rparr>"

subsection \<open>The token bucket: package \<^verbatim>\<open>ratelimit\<close>\<close>

text \<open>
  The token bucket of \<^verbatim>\<open>github.com/juju/ratelimit\<close>, an external library, as far as
  \<^verbatim>\<open>limit\<close> uses it. Times are nanoseconds read from the clock, durations are
  nanoseconds (\<^verbatim>\<open>time.Duration\<close>). \<^verbatim>\<open>NewBucket\<close> panics unless the fill interval and
  the capacity are positive (\<open>None\<close>) and returns a full bucket. \<^verbatim>\<open>TakeAvailable\<close>
  first credits the tokens of the ticks that have passed since the last credit, up to
  the capacity, and then takes what it can, without waiting. Go's integer division
  truncates towards zero.
\<close>

definition go_quot :: "int \<Rightarrow> int \<Rightarrow> int" where
  "go_quot a b = sgn a * sgn b * (\<bar>a\<bar> div \<bar>b\<bar>)"

record Bucket =
  startTime :: int
  capacity :: int
  quantum :: int
  fillInterval :: int
  avail :: int
  availTick :: int

definition NewBucket :: "int \<Rightarrow> int \<Rightarrow> int \<Rightarrow> Bucket option" where
  "NewBucket now fillIntv cap =
     (if fillIntv \<le> 0 then None
      else if cap \<le> 0 then None
      else Some \<lparr>startTime = now, capacity = cap, quantum = 1, fillInterval = fillIntv,
                  avail = cap, availTick = 0\<rparr>)"

definition adjust :: "int \<Rightarrow> Bucket \<Rightarrow> Bucket" where
  "adjust now tb =
     (let currentTick = go_quot (now - startTime tb) (fillInterval tb)
      in if avail tb \<ge> capacity tb then tb
         else let tb = tb\<lparr>avail := avail tb + (currentTick - availTick tb) * quantum tb\<rparr>;
                  tb = (if avail tb > capacity tb then tb\<lparr>avail := capacity tb\<rparr> else tb)
              in tb\<lparr>availTick := currentTick\<rparr>)"

definition TakeAvailable :: "int \<Rightarrow> Bucket \<Rightarrow> int \<Rightarrow> Bucket \<times> int" where
  "TakeAvailable now tb cnt =
     (if cnt \<le> 0 then (tb, 0)
      else let tb = adjust now tb
           in if avail tb \<le> 0 then (tb, 0)
              else let cnt = (if cnt > avail tb then avail tb else cnt)
                   in (tb\<lparr>avail := avail tb - cnt\<rparr>, cnt))"

subsection \<open>The bucket cache: package \<^verbatim>\<open>lru\<close>\<close>

text \<open>
  The cache of \<^verbatim>\<open>github.com/golang/groupcache/lru\<close>, an external library: a list of
  entries, most recently used first, and \<^verbatim>\<open>MaxEntries\<close> (zero means no limit). \<^verbatim>\<open>Get\<close>
  moves the entry it finds to the front; \<^verbatim>\<open>Add\<close> puts the entry at the front and
  removes the oldest entry when the list has become longer than \<^verbatim>\<open>MaxEntries\<close>. The
  cache holds pointers to buckets: \<open>lru_front\<close> writes the new state of the bucket that
  \<^verbatim>\<open>Get\<close> has just returned to its entry, which is the first one.
\<close>

record Cache =
  MaxEntries :: int
  ll :: "(string \<times> Bucket) list"

definition lru_New :: "int \<Rightarrow> Cache" where
  "lru_New maxEntries = \<lparr>MaxEntries = maxEntries, ll = []\<rparr>"

definition lru_Get :: "Cache \<Rightarrow> string \<Rightarrow> Cache \<times> Bucket option" where
  "lru_Get c key =
     (case map_of (ll c) key of
        None \<Rightarrow> (c, None)
      | Some v \<Rightarrow> (c\<lparr>ll := (key, v) # AList.delete key (ll c)\<rparr>, Some v))"

definition lru_Add :: "Cache \<Rightarrow> string \<Rightarrow> Bucket \<Rightarrow> Cache" where
  "lru_Add c key v =
     (case map_of (ll c) key of
        Some old \<Rightarrow> c\<lparr>ll := (key, v) # AList.delete key (ll c)\<rparr>
      | None \<Rightarrow>
          (let c = c\<lparr>ll := (key, v) # ll c\<rparr>
           in if MaxEntries c \<noteq> 0 \<and> int (length (ll c)) > MaxEntries c
              then c\<lparr>ll := butlast (ll c)\<rparr> else c))"

definition lru_front :: "Cache \<Rightarrow> Bucket \<Rightarrow> Cache" where
  "lru_front c v = (case ll c of [] \<Rightarrow> c | (key, old) # rest \<Rightarrow> c\<lparr>ll := (key, v) # rest\<rparr>)"

record globals =
  queries :: int
  announces :: int
  answered :: int
  limited :: int
  unknowns :: int
  limiter :: Cache

section \<open>The rate limiter: \<^verbatim>\<open>limit\<close>\<close>

record UDPAddr =
  IP :: bytes
  Port :: int

text \<open>\<^verbatim>\<open>time.Second\<close>, in nanoseconds.\<close>

definition Second :: int where
  "Second = 1000000000"

text \<open>
  \<^verbatim>\<open>limit\<close> returns \<^verbatim>\<open>true\<close> when the packet is to be dropped. The result \<open>None\<close> is a
  panic: \<^verbatim>\<open>addr.IP\<close> on a \<^verbatim>\<open>nil\<close> address (what \<^verbatim>\<open>ReadFromUDP\<close> returns with an
  error), the division by \<^verbatim>\<open>limitAvg\<close> when it is zero, and \<^verbatim>\<open>NewBucket\<close> on a fill
  interval or capacity that is not positive. The clock reading \<open>now\<close> is the one the
  bucket takes in \<^verbatim>\<open>NewBucket\<close> or \<^verbatim>\<open>TakeAvailable\<close>.
\<close>

definition limit ::
  "netlib \<Rightarrow> flags \<Rightarrow> int \<Rightarrow> UDPAddr option \<Rightarrow> globals \<Rightarrow> (bool \<times> globals) option" where
  "limit lib fl now addr g =
     (case addr of
        None \<Rightarrow> None
      | Some a \<Rightarrow>
          (let key = IP_String lib (IP a)
           in case lru_Get (limiter g) key of
                (c, Some bkt) \<Rightarrow>
                  (case TakeAvailable now bkt 1 of
                     (bkt, taken) \<Rightarrow>
                       if taken \<noteq> 1
                       then Some (True, g\<lparr>limiter := lru_front c bkt, limited := limited g + 1\<rparr>)
                       else Some (False, g\<lparr>limiter := lru_front c bkt\<rparr>))
              | (c, None) \<Rightarrow>
                  if limitAvg fl = 0 then None
                  else (case NewBucket now (go_quot (10 * Second) (limitAvg fl)) (limitBurst fl) of
                          None \<Rightarrow> None
                        | Some bkt \<Rightarrow> Some (False, g\<lparr>limiter := lru_Add c key bkt\<rparr>))))"

section \<open>The handlers\<close>

text \<open>
  \<^verbatim>\<open>IP.To4\<close> and \<^verbatim>\<open>IP.To16\<close> of package \<^verbatim>\<open>net\<close>, on the bytes of the address; the
  empty list is Go's \<^verbatim>\<open>nil\<close>. A 16-byte address with the prefix of an IPv4-mapped
  address converts to its last four bytes.
\<close>

definition v4InV6Prefix :: bytes where
  "v4InV6Prefix = [0, 0, 0, 0, 0, 0, 0, 0, 0, 0, 0xff, 0xff]"

definition To4 :: "bytes \<Rightarrow> bytes" where
  "To4 ip =
     (if length ip = 4 then ip
      else if length ip = 16 \<and> take 12 ip = v4InV6Prefix then drop 12 ip
      else [])"

definition To16 :: "bytes \<Rightarrow> bytes" where
  "To16 ip =
     (if length ip = 4 then v4InV6Prefix @ ip
      else if length ip = 16 then ip
      else [])"

text \<open>
  The device id of a packet, as both handlers compute it: the 32 raw bytes copied, or
  the text form decoded by \<^verbatim>\<open>UnmarshalText\<close>.
\<close>

definition deviceID :: "wire \<Rightarrow> bytes \<Rightarrow> error + bytes" where
  "deviceID w b = (if length b = 32 then Inr b else DeviceID_UnmarshalText w b)"

subsection \<open>\<^verbatim>\<open>handleAnnounceV2\<close>\<close>

text \<open>
  The loop \<^verbatim>\<open>for _, addr := range pkt.This.Addresses\<close>: an address that does not parse,
  or whose host part does not split into host and port, is passed over; an empty host
  is replaced by the source address; the address stored is \<^verbatim>\<open>uri.String()\<close>.
\<close>

fun announcedAddrs ::
  "netlib \<Rightarrow> bytes \<Rightarrow> int64 \<Rightarrow> string list \<Rightarrow> address list \<Rightarrow> address list" where
  "announcedAddrs lib ip now [] addrs = addrs"
| "announcedAddrs lib ip now (addr # rest) addrs =
     (case url_Parse lib addr of
        Inl err \<Rightarrow> announcedAddrs lib ip now rest addrs
      | Inr uri \<Rightarrow>
          (case net_SplitHostPort lib (Host uri) of
             Inl err \<Rightarrow> announcedAddrs lib ip now rest addrs
           | Inr (host, port) \<Rightarrow>
               (let uri = (if length host = 0
                           then uri\<lparr>Host := net_JoinHostPort lib (IP_String lib ip) port\<rparr>
                           else uri)
                in announcedAddrs lib ip now rest
                     (addrs @ [\<lparr>address.address = URL_String lib uri, seen = now\<rparr>]))))"

text \<open>
  The handler gets the store, the global variables, the clock reading \<open>now\<close>
  (\<^verbatim>\<open>time.Now().Unix()\<close>), and returns them with its error result.
\<close>

definition handleAnnounceV2 ::
  "wire \<Rightarrow> netlib \<Rightarrow> int64 \<Rightarrow> leveldb \<Rightarrow> UDPAddr \<Rightarrow> bytes \<Rightarrow> globals
     \<Rightarrow> leveldb \<times> globals \<times> error option" where
  "handleAnnounceV2 w lib now db addr buf g =
     (case Announce_UnmarshalXDR w buf of
        (pkt, err) \<Rightarrow>
          if err \<noteq> None \<and> err \<noteq> Some EOF then (db, g, err)
          else
            (let g = g\<lparr>announces := announces g + 1\<rparr>;
                 ip = To4 (IP addr);
                 ip = (if ip = [] then To16 (IP addr) else ip);
                 addrs = announcedAddrs lib ip now (Addresses (This pkt)) []
             in case deviceID w (ID (This pkt)) of
                  Inl err \<Rightarrow> (db, g, Some err)
                | Inr devid \<Rightarrow> (update lib db devid addrs (Relays (This pkt)), g, None)))"

subsection \<open>\<^verbatim>\<open>handleQueryV2\<close>\<close>

text \<open>
  The connection: the datagrams written so far, with their destinations. The result of
  a \<^verbatim>\<open>WriteToUDP\<close> call is an input (\<open>None\<close> for success); a failed write delivers
  nothing.
\<close>

type_synonym UDPConn = "(bytes \<times> UDPAddr) list"

definition WriteToUDP ::
  "error option \<Rightarrow> UDPConn \<Rightarrow> bytes \<Rightarrow> UDPAddr \<Rightarrow> UDPConn \<times> error option" where
  "WriteToUDP werr conn tb addr =
     (case werr of None \<Rightarrow> (conn @ [(tb, addr)], None) | Some err \<Rightarrow> (conn, Some err))"

text \<open>The loop that fills \<^verbatim>\<open>ann.This.Addresses\<close>.\<close>

fun replyAddresses :: "int64 \<Rightarrow> address list \<Rightarrow> string list \<Rightarrow> string list" where
  "replyAddresses now [] out = out"
| "replyAddresses now (addr # rest) out =
     (if sint cacheLimitSeconds < sint (now - seen addr)
      then replyAddresses now rest out
      else replyAddresses now rest (out @ [address.address addr]))"

definition handleQueryV2 ::
  "wire \<Rightarrow> int64 \<Rightarrow> error option \<Rightarrow> leveldb \<Rightarrow> UDPConn \<Rightarrow> UDPAddr \<Rightarrow> bytes \<Rightarrow> globals
     \<Rightarrow> UDPConn \<times> globals \<times> error option" where
  "handleQueryV2 w now werr db conn addr buf g =
     (case Query_UnmarshalXDR w buf of
        (pkt, Some err) \<Rightarrow> (conn, g, Some err)
      | (pkt, None) \<Rightarrow>
          (case deviceID w (DeviceID pkt) of
             Inl err \<Rightarrow> (conn, g, Some err)
           | Inr devid \<Rightarrow>
               (let g = g\<lparr>queries := queries g + 1\<rparr>;
                    (addrs, rls) = get db devid;
                    drelays = map (\<lambda>r. \<lparr>Address = relay.address r, Latency = latency r\<rparr>) rls
                in if length addrs > 0 then
                     (let ann = \<lparr>Announce.Magic = AnnouncementMagic w,
                                This = \<lparr>ID = DeviceID pkt,
                                        Addresses = replyAddresses now addrs [],
                                        Relays = drelays\<rparr>,
                                Extra = []\<rparr>
                      in if length (Addresses (This ann)) = 0 then (conn, g, None)
                         else (case Announce_MarshalXDR w ann of
                                 Inl err \<Rightarrow> (conn, g, None)
                               | Inr tb \<Rightarrow>
                                   (case WriteToUDP werr conn tb addr of
                                      (conn, Some err) \<Rightarrow> (conn, g, None)
                                    | (conn, None) \<Rightarrow>
                                        (conn, g\<lparr>answered := answered g + 1\<rparr>, None))))
                   else (conn, g, None))))"

section \<open>The dispatcher: the receive loop of \<^verbatim>\<open>main\<close>\<close>

text \<open>
  What \<^verbatim>\<open>conn.ReadFromUDP(buf)\<close> returns: the bytes read into the buffer (\<^verbatim>\<open>n\<close> is
  their number), the source address (\<^verbatim>\<open>nil\<close> is \<open>None\<close>) and the error.
\<close>

record received =
  payload :: bytes
  source :: "UDPAddr option"
  readErr :: "error option"

text \<open>\<^verbatim>\<open>binary.BigEndian.Uint32\<close>, on a slice of four bytes at least.\<close>

definition Uint32 :: "bytes \<Rightarrow> 32 word" where
  "Uint32 b = push_bit 24 (ucast (b ! 0)) OR push_bit 16 (ucast (b ! 1))
                OR push_bit 8 (ucast (b ! 2)) OR ucast (b ! 3)"

text \<open>
  The lines written to the log of unknown packets, when the server runs with one
  (\<^verbatim>\<open>unknownLog != nil\<close>): the tag, the time, the source and the packet.
\<close>

datatype tag = TagAE | TagQE | TagUN

type_synonym logline = "tag \<times> int64 \<times> UDPAddr \<times> bytes"

record server =
  registry :: leveldb
  socket :: UDPConn
  vars :: globals
  unknownLog :: "logline list option"

definition logUnknown :: "tag \<Rightarrow> int64 \<Rightarrow> UDPAddr \<Rightarrow> bytes \<Rightarrow> server \<Rightarrow> server" where
  "logUnknown t now addr buf s =
     (case unknownLog s of
        None \<Rightarrow> s
      | Some ls \<Rightarrow> s\<lparr>unknownLog := Some (ls @ [(t, now, addr, buf)])\<rparr>)"

text \<open>
  The clock readings and the result of the write that one iteration may make are
  inputs: \<open>timeNow\<close> (nanoseconds) for the limiter, \<open>unixNow\<close> (seconds) for the
  handlers and the log.
\<close>

record clock =
  timeNow :: int
  unixNow :: int64

text \<open>
  One iteration of the \<^verbatim>\<open>for\<close> loop of \<^verbatim>\<open>main\<close>, from the return of
  \<^verbatim>\<open>ReadFromUDP\<close> to the next iteration. \<open>None\<close> is the end of the process: a panic
  in \<^verbatim>\<open>limit\<close>, or \<^verbatim>\<open>log.Fatal(err)\<close> on a read error. The rate limit is applied
  before the read error is looked at, as in the source.
\<close>

definition serve ::
  "wire \<Rightarrow> netlib \<Rightarrow> flags \<Rightarrow> clock \<Rightarrow> error option \<Rightarrow> received \<Rightarrow> server \<Rightarrow> server option" where
  "serve w lib fl clk werr rcv s =
     (case limit lib fl (timeNow clk) (source rcv) (vars s) of
        None \<Rightarrow> None
      | Some (True, g) \<Rightarrow> Some (s\<lparr>vars := g\<rparr>)
      | Some (False, g) \<Rightarrow>
          (case source rcv of
             None \<Rightarrow> None
           | Some addr \<Rightarrow>
               (let s = s\<lparr>vars := g\<rparr>
                in if readErr rcv \<noteq> None then None
                   else if length (payload rcv) < 4 then Some s
                   else
                     (let buf = payload rcv; magic = Uint32 buf
                      in if magic = AnnouncementMagic w then
                           (case handleAnnounceV2 w lib (unixNow clk) (registry s) addr buf (vars s) of
                              (db', g', err) \<Rightarrow>
                                (let s = s\<lparr>registry := db', vars := g'\<rparr>
                                 in Some (if err \<noteq> None
                                          then logUnknown TagAE (unixNow clk) addr buf s else s)))
                         else if magic = QueryMagic w then
                           (case handleQueryV2 w (unixNow clk) werr (registry s) (socket s) addr buf (vars s) of
                              (conn', g', err) \<Rightarrow>
                                (let s = s\<lparr>socket := conn', vars := g'\<rparr>
                                 in Some (if err \<noteq> None
                                          then logUnknown TagQE (unixNow clk) addr buf s else s)))
                         else
                           Some (logUnknown TagUN (unixNow clk) addr buf
                                   (s\<lparr>vars := (vars s)\<lparr>unknowns := unknowns (vars s) + 1\<rparr>\<rparr>))))))"

section \<open>Notions used to state the properties\<close>

text \<open>
  An address is expired at a given time when its age, computed as the code computes
  it (a 64-bit subtraction), is greater than the retention window.
\<close>

definition expired :: "int64 \<Rightarrow> address \<Rightarrow> bool" where
  "expired now a \<longleftrightarrow> sint cacheLimitSeconds < sint (now - seen a)"

text \<open>
  The port-normalized form of an address, in the words of the specification: the URI
  with the port 22000 substituted into its host:port; \<open>None\<close> when the address does
  not parse as a URI with host:port.
\<close>

definition portNormal :: "netlib \<Rightarrow> string \<Rightarrow> string option" where
  "portNormal lib s =
     (case url_Parse lib s of
        Inl err \<Rightarrow> None
      | Inr uri \<Rightarrow>
          (case net_SplitHostPort lib (Host uri) of
             Inl err \<Rightarrow> None
           | Inr (host, port) \<Rightarrow>
               Some (URL_String lib (uri\<lparr>Host := net_JoinHostPort lib host ''22000''\<rparr>))))"

text \<open>
  The merge rule of the specification for one new address: the first existing entry
  with the same port-normalized form is replaced in place; without such an entry the
  new address is appended.
\<close>

definition mergeRule :: "netlib \<Rightarrow> address list \<Rightarrow> address \<Rightarrow> address list" where
  "mergeRule lib exAddrs newAddr =
     (case filter (\<lambda>i. portNormal lib (address.address (exAddrs ! i))
                        = portNormal lib (address.address newAddr)) [0..<length exAddrs] of
        [] \<Rightarrow> exAddrs @ [newAddr]
      | i # others \<Rightarrow> exAddrs[i := newAddr])"

text \<open>
  What the announce handler makes of one announced address, for the source address
  \<open>ip\<close> (as converted by \<^verbatim>\<open>To4\<close> or \<^verbatim>\<open>To16\<close>): nothing when the address does not parse
  as a URI whose host part splits into host and port; else the string of the URI, with
  the source address and the announced port as its host part when the announced host
  is empty, stamped with the time of the announce.
\<close>

definition announced :: "netlib \<Rightarrow> bytes \<Rightarrow> int64 \<Rightarrow> string \<Rightarrow> address list" where
  "announced lib ip now s =
     (case url_Parse lib s of
        Inl err \<Rightarrow> []
      | Inr uri \<Rightarrow>
          (case net_SplitHostPort lib (Host uri) of
             Inl err \<Rightarrow> []
           | Inr (host, port) \<Rightarrow>
               [\<lparr>address.address =
                    URL_String lib (if host = []
                                    then uri\<lparr>Host := net_JoinHostPort lib (IP_String lib ip) port\<rparr>
                                    else uri),
                  seen = now\<rparr>]))"

text \<open>
  A run of packets from one source: \<^verbatim>\<open>limit\<close> is called once per packet, at the given
  clock readings, and the answers are collected.
\<close>

fun limits ::
  "netlib \<Rightarrow> flags \<Rightarrow> UDPAddr \<Rightarrow> int list \<Rightarrow> globals \<Rightarrow> (bool list \<times> globals) option" where
  "limits lib fl a [] g = Some ([], g)"
| "limits lib fl a (t # ts) g =
     (case limit lib fl t (Some a) g of
        None \<Rightarrow> None
      | Some (r, g') \<Rightarrow>
          (case limits lib fl a ts g' of
             None \<Rightarrow> None
           | Some (rs, g'') \<Rightarrow> Some (r # rs, g'')))"

section \<open>An instance of the libraries\<close>

text \<open>
  To evaluate the code on examples, the library parameters need values. \<open>goNet\<close>
  follows the Go standard library of the time (Go 1.3) on URIs that consist of
  letters, digits and the characters \<^verbatim>\<open>+ - . : / [ ] _ ~\<close>: such a URI has no query,
  fragment, user part or escape, so that \<^verbatim>\<open>url.Parse\<close> only separates scheme,
  authority and path, and \<^verbatim>\<open>URL.String\<close> puts them together again. On any other
  string \<open>goNet\<close> reports a parse error, which Go may not do; the instance is used
  on the examples only, never in a general statement.
\<close>

definition isLetter :: "char \<Rightarrow> bool" where
  "isLetter c \<longleftrightarrow> c \<in> set ''abcdefghijklmnopqrstuvwxyzABCDEFGHIJKLMNOPQRSTUVWXYZ''"

definition isDigit :: "char \<Rightarrow> bool" where
  "isDigit c \<longleftrightarrow> c \<in> set ''0123456789''"

definition plain :: "char \<Rightarrow> bool" where
  "plain c \<longleftrightarrow> isLetter c \<or> isDigit c \<or> c \<in> set ''+-.:/[]_~''"

definition toLower :: "string \<Rightarrow> string" where
  "toLower s =
     map (\<lambda>c. case map_of (zip ''ABCDEFGHIJKLMNOPQRSTUVWXYZ'' ''abcdefghijklmnopqrstuvwxyz'') c of
                 None \<Rightarrow> c | Some l \<Rightarrow> l) s"

text \<open>\<^verbatim>\<open>getscheme\<close> of \<^verbatim>\<open>net/url\<close>: the scheme and the rest after the colon.\<close>

fun getscheme :: "string \<Rightarrow> nat \<Rightarrow> string \<Rightarrow> error + (string \<times> string)" where
  "getscheme rawurl i [] = Inr ([], rawurl)"
| "getscheme rawurl i (c # cs) =
     (if isLetter c then getscheme rawurl (Suc i) cs
      else if isDigit c \<or> c = CHR ''+'' \<or> c = CHR ''-'' \<or> c = CHR ''.'' then
        (if i = 0 then Inr ([], rawurl) else getscheme rawurl (Suc i) cs)
      else if c = CHR '':'' then
        (if i = 0 then Inl (Error ''missing protocol scheme'') else Inr (take i rawurl, cs))
      else Inr ([], rawurl))"

definition hasPrefix :: "string \<Rightarrow> string \<Rightarrow> bool" where
  "hasPrefix s p \<longleftrightarrow> take (length p) s = p"

definition go_url_Parse :: "string \<Rightarrow> error + URL" where
  "go_url_Parse rawurl =
     (if \<not> list_all plain rawurl then Inl (Error ''not covered'')
      else case getscheme rawurl 0 rawurl of
        Inl err \<Rightarrow> Inl err
      | Inr (scheme, rest) \<Rightarrow>
          (let url = \<lparr>Scheme = toLower scheme, Opaque = [], User = None, Host = [], Path = [],
                      RawQuery = [], Fragment = []\<rparr>
           in if \<not> hasPrefix rest ''/'' \<and> Scheme url \<noteq> [] then Inr (url\<lparr>Opaque := rest\<rparr>)
              else if (Scheme url \<noteq> [] \<or> \<not> hasPrefix rest ''///'') \<and> hasPrefix rest ''//''
              then Inr (url\<lparr>Host := takeWhile (\<lambda>c. c \<noteq> CHR ''/'') (drop 2 rest),
                            Path := dropWhile (\<lambda>c. c \<noteq> CHR ''/'') (drop 2 rest)\<rparr>)
              else Inr (url\<lparr>Path := rest\<rparr>)))"

definition go_URL_String :: "URL \<Rightarrow> string" where
  "go_URL_String u =
     (if Scheme u \<noteq> [] then Scheme u @ '':'' else []) @
     (if Opaque u \<noteq> [] then Opaque u
      else (if Scheme u \<noteq> [] \<or> Host u \<noteq> [] \<or> User u \<noteq> None
            then ''//'' @ (case User u of None \<Rightarrow> [] | Some ui \<Rightarrow> ui @ ''@'') @ Host u
            else []) @
           (if Path u \<noteq> [] \<and> hd (Path u) \<noteq> CHR ''/'' \<and> Host u \<noteq> [] then ''/'' else []) @
           Path u) @
     (if RawQuery u \<noteq> [] then ''?'' @ RawQuery u else []) @
     (if Fragment u \<noteq> [] then ''#'' @ Fragment u else [])"

definition lastIndex :: "string \<Rightarrow> char \<Rightarrow> nat option" where
  "lastIndex s c =
     (case filter (\<lambda>i. s ! i = c) (rev [0..<length s]) of [] \<Rightarrow> None | i # others \<Rightarrow> Some i)"

definition byteIndex :: "string \<Rightarrow> char \<Rightarrow> nat option" where
  "byteIndex s c =
     (case filter (\<lambda>i. s ! i = c) [0..<length s] of [] \<Rightarrow> None | i # others \<Rightarrow> Some i)"

text \<open>
  \<^verbatim>\<open>net.SplitHostPort\<close>: the port starts after the last colon; a host in brackets
  must end just before that colon; a host without brackets has no colon.
\<close>

definition go_SplitHostPort :: "string \<Rightarrow> error + (string \<times> string)" where
  "go_SplitHostPort hostport =
     (case lastIndex hostport (CHR '':'') of
        None \<Rightarrow> Inl (Error ''missing port in address'')
      | Some i \<Rightarrow>
          if hd hostport = CHR ''[''
          then (case byteIndex hostport (CHR '']'') of
                  None \<Rightarrow> Inl (Error ''missing ] in address'')
                | Some e \<Rightarrow>
                    if e + 1 = length hostport then Inl (Error ''missing port in address'')
                    else if e + 1 = i then
                      (if byteIndex (drop 1 hostport) (CHR ''['') \<noteq> None
                       then Inl (Error ''unexpected [ in address'')
                       else if byteIndex (drop (e + 1) hostport) (CHR '']'') \<noteq> None
                       then Inl (Error ''unexpected ] in address'')
                       else Inr (take (e - 1) (drop 1 hostport), drop (i + 1) hostport))
                    else if hostport ! (e + 1) = CHR '':''
                    then Inl (Error ''too many colons in address'')
                    else Inl (Error ''missing port in address''))
          else if byteIndex (take i hostport) (CHR '':'') \<noteq> None
               then Inl (Error ''too many colons in address'')
          else if byteIndex (take i hostport) (CHR ''%'') \<noteq> None
               then Inl (Error ''missing brackets in address'')
          else if byteIndex hostport (CHR ''['') \<noteq> None
               then Inl (Error ''unexpected [ in address'')
          else if byteIndex hostport (CHR '']'') \<noteq> None
               then Inl (Error ''unexpected ] in address'')
          else Inr (take i hostport, drop (i + 1) hostport))"

definition go_JoinHostPort :: "string \<Rightarrow> string \<Rightarrow> string" where
  "go_JoinHostPort host port =
     (if CHR '':'' \<in> set host \<or> CHR ''%'' \<in> set host then ''['' @ host @ '']:'' @ port
      else host @ '':'' @ port)"

text \<open>
  \<^verbatim>\<open>IP.String\<close>: dotted decimal for an address that \<^verbatim>\<open>To4\<close> converts, else the eight
  16-bit groups in hexadecimal, the longest run of two or more zero groups written
  as \<^verbatim>\<open>::\<close>.
\<close>

fun itod :: "nat \<Rightarrow> string" where
  "itod n = (if n < 10 then [''0123456789'' ! n]
             else itod (n div 10) @ [''0123456789'' ! (n mod 10)])"

fun appendHex :: "nat \<Rightarrow> string" where
  "appendHex n = (if n < 16 then [''0123456789abcdef'' ! n]
                  else appendHex (n div 16) @ [''0123456789abcdef'' ! (n mod 16)])"

declare itod.simps [simp del] appendHex.simps [simp del]

definition groups :: "bytes \<Rightarrow> nat list" where
  "groups p = map (\<lambda>i. unat (p ! (2 * i)) * 256 + unat (p ! (2 * i + 1))) [0..<8]"

function zeroRun :: "nat list \<Rightarrow> nat \<Rightarrow> int \<times> int \<Rightarrow> int \<times> int" where
  "zeroRun gs i (e0, e1) =
     (if i < length gs then
        (let j = i + length (takeWhile (\<lambda>g. g = 0) (drop i gs))
         in if j > i \<and> int j - int i > e1 - e0 then zeroRun gs (Suc j) (int i, int j)
            else zeroRun gs (Suc i) (e0, e1))
      else (e0, e1))"
  by pat_completeness auto
termination
  by (relation "measure (\<lambda>(gs, i, e). length gs - i)") auto

declare zeroRun.simps [simp del]

function render :: "nat list \<Rightarrow> int \<Rightarrow> nat \<Rightarrow> nat \<Rightarrow> string" where
  "render gs e0 e1 i =
     (if i < length gs then
        (if int i = e0 then
           ''::'' @ (if e1 \<ge> length gs then []
                     else appendHex (gs ! e1) @ render gs e0 e1 (Suc (max i e1)))
         else (if i > 0 then '':'' else []) @ appendHex (gs ! i) @ render gs e0 e1 (Suc i))
      else [])"
  by pat_completeness auto
termination
  by (relation "measure (\<lambda>(gs, e0, e1, i). length gs - i)") auto

declare render.simps [simp del]

definition go_IP_String :: "bytes \<Rightarrow> string" where
  "go_IP_String ip =
     (if length ip = 0 then ''<nil>''
      else if length (To4 ip) = 4 then
        (let p4 = To4 ip
         in itod (unat (p4 ! 0)) @ ''.'' @ itod (unat (p4 ! 1)) @ ''.'' @
            itod (unat (p4 ! 2)) @ ''.'' @ itod (unat (p4 ! 3)))
      else if length ip \<noteq> 16 then ''?''
      else (let gs = groups ip; (e0, e1) = zeroRun gs 0 (- 1, - 1);
                (e0, e1) = (if e1 - e0 \<le> 1 then (- 1, - 1) else (e0, e1))
            in render gs e0 (nat e1) 0))"

definition goNet :: netlib where
  "goNet = \<lparr>url_Parse = go_url_Parse, URL_String = go_URL_String,
            net_SplitHostPort = go_SplitHostPort, net_JoinHostPort = go_JoinHostPort,
            IP_String = go_IP_String\<rparr>"

text \<open>
  \<open>xdrWire\<close> is a codec for the two packets in the XDR representation: 32-bit
  big-endian integers, byte strings and lists with a 32-bit length in front, byte
  strings padded with zeros to a multiple of four bytes. A device id has 32 bytes at
  most, and a packet 16 addresses, relays and extra devices at most. A packet that ends
  early decodes to the empty packet with the error \<^verbatim>\<open>io.EOF\<close>. The instance accepts
  device ids in raw form only. The magic numbers are two distinct constants.
\<close>

definition putUint32 :: "32 word \<Rightarrow> bytes" where
  "putUint32 v = [ucast (drop_bit 24 v), ucast (drop_bit 16 v), ucast (drop_bit 8 v), ucast v]"

definition padded :: "nat \<Rightarrow> nat" where
  "padded n = (n + 3) div 4 * 4"

definition putBytes :: "bytes \<Rightarrow> bytes" where
  "putBytes b = putUint32 (of_nat (length b)) @ b @ replicate (padded (length b) - length b) 0"

definition putString :: "string \<Rightarrow> bytes" where
  "putString s = putBytes (map of_char s)"

definition putRelay :: "Relay \<Rightarrow> bytes" where
  "putRelay r = putString (Address r) @ putUint32 (Latency r)"

definition putDevice :: "Device \<Rightarrow> bytes" where
  "putDevice d =
     putBytes (ID d) @
     putUint32 (of_nat (length (Addresses d))) @ concat (map putString (Addresses d)) @
     putUint32 (of_nat (length (Relays d))) @ concat (map putRelay (Relays d))"

definition deviceFits :: "Device \<Rightarrow> bool" where
  "deviceFits d \<longleftrightarrow> length (ID d) \<le> 32 \<and> length (Addresses d) \<le> 16 \<and> length (Relays d) \<le> 16"

definition xdr_Announce_MarshalXDR :: "Announce \<Rightarrow> error + bytes" where
  "xdr_Announce_MarshalXDR a =
     (if deviceFits (This a) \<and> length (Extra a) \<le> 16 \<and> list_all deviceFits (Extra a)
      then Inr (putUint32 (Announce.Magic a) @ putDevice (This a) @
                putUint32 (of_nat (length (Extra a))) @ concat (map putDevice (Extra a)))
      else Inl (Error ''element size exceeded''))"

type_synonym 'a reader = "bytes \<Rightarrow> error + ('a \<times> bytes)"

definition getUint32 :: "(32 word) reader" where
  "getUint32 b = (if length b < 4 then Inl EOF else Inr (Uint32 b, drop 4 b))"

definition getBytes :: "nat \<Rightarrow> bytes reader" where
  "getBytes mx b =
     (case getUint32 b of
        Inl err \<Rightarrow> Inl err
      | Inr (l, b) \<Rightarrow>
          if mx < unat l then Inl (Error ''element size exceeded'')
          else if length b < padded (unat l) then Inl EOF
          else Inr (take (unat l) b, drop (padded (unat l)) b))"

definition getString :: "string reader" where
  "getString b = (case getBytes 1024 b of Inl err \<Rightarrow> Inl err | Inr (s, b) \<Rightarrow> Inr (map (\<lambda>x. char_of (unat x)) s, b))"

primrec getList :: "'a reader \<Rightarrow> nat \<Rightarrow> ('a list) reader" where
  "getList rd 0 b = Inr ([], b)"
| "getList rd (Suc n) b =
     (case rd b of
        Inl err \<Rightarrow> Inl err
      | Inr (x, b) \<Rightarrow> (case getList rd n b of Inl err \<Rightarrow> Inl err | Inr (xs, b) \<Rightarrow> Inr (x # xs, b)))"

definition getCounted :: "'a reader \<Rightarrow> nat \<Rightarrow> ('a list) reader" where
  "getCounted rd mx b =
     (case getUint32 b of
        Inl err \<Rightarrow> Inl err
      | Inr (l, b) \<Rightarrow> if mx < unat l then Inl (Error ''element size exceeded'') else getList rd (unat l) b)"

definition getRelay :: "Relay reader" where
  "getRelay b =
     (case getString b of
        Inl err \<Rightarrow> Inl err
      | Inr (a, b) \<Rightarrow> (case getUint32 b of Inl err \<Rightarrow> Inl err | Inr (l, b) \<Rightarrow> Inr (\<lparr>Address = a, Latency = l\<rparr>, b)))"

definition getDevice :: "Device reader" where
  "getDevice b =
     (case getBytes 32 b of
        Inl err \<Rightarrow> Inl err
      | Inr (i, b) \<Rightarrow>
          (case getCounted getString 16 b of
             Inl err \<Rightarrow> Inl err
           | Inr (as, b) \<Rightarrow>
               (case getCounted getRelay 16 b of
                  Inl err \<Rightarrow> Inl err
                | Inr (rs, b) \<Rightarrow> Inr (\<lparr>ID = i, Addresses = as, Relays = rs\<rparr>, b))))"

definition xdr_Announce_UnmarshalXDR :: "bytes \<Rightarrow> Announce \<times> error option" where
  "xdr_Announce_UnmarshalXDR b =
     (let zero = \<lparr>Announce.Magic = 0, This = \<lparr>ID = [], Addresses = [], Relays = []\<rparr>, Extra = []\<rparr>
      in case getUint32 b of
           Inl err \<Rightarrow> (zero, Some err)
         | Inr (m, b) \<Rightarrow>
             (case getDevice b of
                Inl err \<Rightarrow> (zero, Some err)
              | Inr (d, b) \<Rightarrow>
                  (case getCounted getDevice 16 b of
                     Inl err \<Rightarrow> (zero, Some err)
                   | Inr (ex, b) \<Rightarrow> (\<lparr>Announce.Magic = m, This = d, Extra = ex\<rparr>, None))))"

definition xdr_Query_UnmarshalXDR :: "bytes \<Rightarrow> Query \<times> error option" where
  "xdr_Query_UnmarshalXDR b =
     (let zero = \<lparr>Query.Magic = 0, DeviceID = []\<rparr>
      in case getUint32 b of
           Inl err \<Rightarrow> (zero, Some err)
         | Inr (m, b) \<Rightarrow>
             (case getBytes 32 b of
                Inl err \<Rightarrow> (zero, Some err)
              | Inr (i, b) \<Rightarrow> (\<lparr>Query.Magic = m, DeviceID = i\<rparr>, None)))"

definition xdrWire :: wire where
  "xdrWire = \<lparr>AnnouncementMagic = 0x9D79BC40, QueryMagic = 0x2CA856F6,
              Announce_UnmarshalXDR = xdr_Announce_UnmarshalXDR,
              Announce_MarshalXDR = xdr_Announce_MarshalXDR,
              Query_UnmarshalXDR = xdr_Query_UnmarshalXDR,
              DeviceID_UnmarshalText = (\<lambda>b. Inl (Error ''device ID invalid''))\<rparr>"

section \<open>Example data\<close>

text \<open>
  The global variables when the receive loop starts: the counters at zero and
  \<^verbatim>\<open>limiter = lru.New(lruSize)\<close>.
\<close>

definition initialVars :: "flags \<Rightarrow> globals" where
  "initialVars fl = \<lparr>queries = 0, announces = 0, answered = 0, limited = 0, unknowns = 0,
                      limiter = lru_New (lruSize fl)\<rparr>"

text \<open>A device id in raw form, a source address, and a query packet for the device.\<close>

definition deviceA :: bytes where
  "deviceA = replicate 32 7"

definition peer :: UDPAddr where
  "peer = \<lparr>IP = [203, 0, 113, 5], Port = 22000\<rparr>"

definition peer6 :: UDPAddr where
  "peer6 = \<lparr>IP = [0x20, 0x01, 0x0d, 0xb8, 0, 0, 0, 0, 0, 0, 0, 0, 0, 0, 0, 1], Port = 22000\<rparr>"

definition queryA :: bytes where
  "queryA = putUint32 0x2CA856F6 @ putBytes deviceA"

text \<open>An announce packet of the device with the given addresses and no relays.\<close>

definition announceA :: "string list \<Rightarrow> bytes" where
  "announceA ss =
     putUint32 0x9D79BC40 @ putDevice \<lparr>ID = deviceA, Addresses = ss, Relays = []\<rparr> @ putUint32 0"

text \<open>The server when the receive loop starts, with an empty registry and without a
  log of unknown packets.\<close>

definition initialServer :: "flags \<Rightarrow> server" where
  "initialServer fl = \<lparr>registry = [], socket = [], vars = initialVars fl, unknownLog = None\<rparr>"

section \<open>Properties of the expiry sweeper\<close>

lemma removeExpired_step:
  "removeExpired n xs i =
     (if i < length xs then
        (if expired n (xs ! i) then removeExpired n (butlast (xs[i := last xs])) (Suc i)
         else removeExpired n xs (Suc i))
      else xs)"
  by (subst removeExpired.simps) (simp add: expired_def)

lemma mset_butlast_last: "xs \<noteq> [] \<Longrightarrow> mset xs = mset (butlast xs) + {#last xs#}"
  by (induction xs) auto

text \<open>Overwriting position \<open>i\<close> with the last entry and dropping the last position
  removes one occurrence of the entry at \<open>i\<close>, and nothing else.\<close>

lemma mset_swap_remove:
  assumes "i < length xs"
  shows "mset (butlast (xs[i := last xs])) = mset xs - {#xs ! i#}"
proof (cases "i = length xs - 1")
  case True
  from assms have ne: "xs \<noteq> []" by auto
  have "butlast (xs[i := last xs]) = butlast xs"
    using True by (simp add: butlast_list_update)
  moreover have "xs ! i = last xs"
    using True ne by (simp add: last_conv_nth)
  ultimately show ?thesis
    using mset_butlast_last [OF ne] by simp
next
  case False
  with assms have i: "i < length (butlast xs)" by simp
  from assms have ne: "xs \<noteq> []" by auto
  have "butlast (xs[i := last xs]) = (butlast xs)[i := last xs]"
    using False by (simp add: butlast_list_update)
  then have "mset (butlast (xs[i := last xs]))
               = mset (butlast xs) - {#butlast xs ! i#} + {#last xs#}"
    using i by (simp add: mset_update)
  moreover have "butlast xs ! i = xs ! i"
    using i by (simp add: nth_butlast)
  moreover have "xs ! i \<in># mset (butlast xs)"
    using i \<open>butlast xs ! i = xs ! i\<close> by (metis nth_mem set_mset_mset)
  ultimately show ?thesis
    using mset_butlast_last [OF ne] by simp
qed

lemma removeExpired_subset: "mset (removeExpired n xs i) \<subseteq># mset xs"
proof (induction n xs i rule: removeExpired.induct)
  case (1 n xs i)
  show ?case
  proof (cases "i < length xs")
    case False
    then show ?thesis by (simp add: removeExpired_step)
  next
    case True
    show ?thesis
    proof (cases "expired n (xs ! i)")
      case False
      with True 1(2) show ?thesis by (simp add: removeExpired_step expired_def)
    next
      case e: True
      have "mset (removeExpired n (butlast (xs[i := last xs])) (Suc i)) \<subseteq># mset xs - {#xs ! i#}"
        using 1(1) [OF True e [unfolded expired_def]] mset_swap_remove [OF True] by simp
      then have "mset (removeExpired n (butlast (xs[i := last xs])) (Suc i)) \<subseteq># mset xs"
        by (rule subset_mset.order_trans) (rule diff_subset_eq_self)
      with True e show ?thesis by (simp add: removeExpired_step)
    qed
  qed
qed

text \<open>The loop removes expired addresses only: the addresses that are not expired
  are all there afterwards, as often as before.\<close>

lemma removeExpired_fresh:
  "filter_mset (\<lambda>a. \<not> expired n a) (mset (removeExpired n xs i))
     = filter_mset (\<lambda>a. \<not> expired n a) (mset xs)"
proof (induction n xs i rule: removeExpired.induct)
  case (1 n xs i)
  show ?case
  proof (cases "i < length xs")
    case False
    then show ?thesis by (simp add: removeExpired_step)
  next
    case True
    show ?thesis
    proof (cases "expired n (xs ! i)")
      case False
      with True 1(2) show ?thesis by (simp add: removeExpired_step expired_def)
    next
      case e: True
      have "filter_mset (\<lambda>a. \<not> expired n a) (mset xs - {#xs ! i#})
              = filter_mset (\<lambda>a. \<not> expired n a) (mset xs)"
        using e by (simp add: filter_mset_eq_conv) 
      with 1(1) [OF True e [unfolded expired_def]] mset_swap_remove [OF True] True e
      show ?thesis by (simp add: removeExpired_step)
    qed
  qed
qed

lemma removeExpired_keeps:
  assumes "a \<in> set xs" and "\<not> expired n a"
  shows "a \<in> set (removeExpired n xs i)"
proof -
  from assms have "a \<in># filter_mset (\<lambda>a. \<not> expired n a) (mset xs)" by simp
  then have "a \<in># filter_mset (\<lambda>a. \<not> expired n a) (mset (removeExpired n xs i))"
    by (simp only: removeExpired_fresh)
  then show ?thesis by simp
qed

lemma removeExpired_length_le: "length (removeExpired n xs i) \<le> length xs"
  using size_mset_mono [OF removeExpired_subset [of n xs i]] by simp

lemma removeExpired_length_eq:
  "length (removeExpired n xs i) = length xs \<Longrightarrow> removeExpired n xs i = xs"
proof (induction n xs i rule: removeExpired.induct)
  case (1 n xs i)
  show ?case
  proof (cases "i < length xs")
    case False
    then show ?thesis by (simp add: removeExpired_step)
  next
    case True
    show ?thesis
    proof (cases "expired n (xs ! i)")
      case e: True
      have "length (removeExpired n (butlast (xs[i := last xs])) (Suc i)) \<le> length xs - 1"
        using removeExpired_length_le [of n "butlast (xs[i := last xs])" "Suc i"] by simp
      with True e have "length (removeExpired n xs i) < length xs"
        by (simp add: removeExpired_step)
      with 1(3) show ?thesis by simp
    next
      case False
      then have eq: "removeExpired n xs i = removeExpired n xs (Suc i)"
        using True by (simp add: removeExpired_step)
      with 1(2) [OF True False [unfolded expired_def]] 1(3) show ?thesis by simp
    qed
  qed
qed

lemma XDR_UnmarshalXDR: "XDR (UnmarshalXDR v) = v"
  by (cases v) simp

text \<open>What a walk over distinct keys leaves in the store under a key.\<close>

lemma cleanRecords_lookup:
  "distinct (map fst iter) \<Longrightarrow>
   map_of (store (cleanRecords n iter s)) k =
     (case map_of iter k of
        None \<Rightarrow> map_of (store s) k
      | Some v \<Rightarrow>
          (let al = UnmarshalXDR v; new = removeExpired n (addresses al) 0
           in if new = [] then None
              else if length new \<noteq> length (addresses al)
              then Some (XDR (al\<lparr>addresses := new\<rparr>))
              else map_of (store s) k))"
proof (induction iter arbitrary: s k)
  case Nil
  then show ?case by simp
next
  case (Cons e iter)
  obtain key val where e: "e = (key, val)" by (cases e)
  from Cons.prems e have d: "distinct (map fst iter)" and nk: "map_of iter key = None"
    by (auto simp: map_of_eq_None_iff)
  note IH = Cons.IH [OF d]
  show ?case
    unfolding e using nk
    by (simp add: IH Let_def MarshalXDR_def db_Delete_def db_Put_def delete_conv' update_conv'
             split: option.splits)
qed

lemma clean_lookup:
  assumes "distinct (map fst db)"
  shows "map_of (store (clean n db)) k =
     (case map_of db k of
        None \<Rightarrow> None
      | Some v \<Rightarrow>
          (let new = removeExpired n (addresses (UnmarshalXDR v)) 0
           in if new = [] then None
              else Some (XDR ((UnmarshalXDR v)\<lparr>addresses := new\<rparr>))))"
proof (cases "map_of db k")
  case None
  then show ?thesis
    by (simp add: clean_def db_NewIterator_def cleanRecords_lookup [OF assms])
next
  case (Some v)
  have "length (removeExpired n (addresses (UnmarshalXDR v)) 0) = length (addresses (UnmarshalXDR v))
        \<Longrightarrow> (UnmarshalXDR v)\<lparr>addresses := removeExpired n (addresses (UnmarshalXDR v)) 0\<rparr>
              = UnmarshalXDR v"
    using removeExpired_length_eq [of n "addresses (UnmarshalXDR v)" 0] by simp
  with Some show ?thesis
    by (simp add: clean_def db_NewIterator_def cleanRecords_lookup [OF assms] Let_def
                  XDR_UnmarshalXDR)
qed

lemma cleanRecords_counts:
  "kept (cleanRecords n iter s) + deleted (cleanRecords n iter s)
     = kept s + deleted s + int (length iter)"
  by (induction n iter s rule: cleanRecords.induct) (simp_all add: Let_def MarshalXDR_def)

text \<open>After a sweep pass no record with an empty address list is stored, and a record
  whose only address is expired is gone.\<close>

lemma clean_no_empty_record:
  assumes "distinct (map fst db)" and "map_of (store (clean n db)) k = Some v"
  shows "addresses (UnmarshalXDR v) \<noteq> []"
  using assms(2) unfolding clean_lookup [OF assms(1)]
  by (auto simp: Let_def split: option.splits if_splits)

lemma clean_deletes_single_expired:
  assumes "distinct (map fst db)" and "map_of db k = Some (XDR rcd)"
    and "addresses rcd = [a]" and "expired n a"
  shows "map_of (store (clean n db)) k = None"
proof -
  have "removeExpired n [a] 0 = []"
    using assms(4) by (simp add: removeExpired_step)
  with assms(2,3) show ?thesis
    by (simp add: clean_lookup [OF assms(1)])
qed

text \<open>
  C1. One sweep pass is claimed to remove every address older than the retention
  window from every record. The loop of \<^verbatim>\<open>clean\<close> moves the last entry into the place
  of an expired one and goes on with the next index, so the entry moved there is never
  examined. A record of two addresses last seen at time 0, swept at time 7200 (twice
  the window), keeps the second address: the record is written back with it and counted
  as kept, and the stored address is expired at the sweep time.
\<close>

theorem clean_keeps_expired_address:
  "clean 7200 [([1], XDR \<lparr>addresses = [\<lparr>address.address = ''tcp://192.0.2.1:22000'', seen = 0\<rparr>,
                                          \<lparr>address.address = ''tcp://192.0.2.2:22000'', seen = 0\<rparr>],
                             relays = []\<rparr>)]
     = \<lparr>store = [([1], XDR \<lparr>addresses = [\<lparr>address.address = ''tcp://192.0.2.2:22000'', seen = 0\<rparr>],
                              relays = []\<rparr>)],
        kept = 1, deleted = 0\<rparr>
   \<and> expired 7200 \<lparr>address.address = ''tcp://192.0.2.2:22000'', seen = 0\<rparr>"
  by (simp add: clean_def db_NewIterator_def removeExpired.simps expired_def cacheLimitSeconds_def
                MarshalXDR_def db_Put_def)

text \<open>
  C6. For every state of the registry, the counts \<^verbatim>\<open>kept\<close> and \<^verbatim>\<open>deleted\<close> that one
  sweep pass reports add up to the number of records in the registry when the pass began.
\<close>

theorem clean_kept_plus_deleted:
  "kept (clean nowSecs db) + deleted (clean nowSecs db) = int (length db)"
  by (simp add: clean_def db_NewIterator_def cleanRecords_counts)

section \<open>Properties of the registry store\<close>

text \<open>The loop body in terms of the port-normalized forms.\<close>

lemma mergeAddr_step:
  "mergeAddr lib a exs i =
     (if i < length exs then
        (case portNormal lib (address.address a) of
           None \<Rightarrow> exs
         | Some k \<Rightarrow>
             if portNormal lib (address.address (exs ! i)) = Some k then exs[i := a]
             else mergeAddr lib a exs (Suc i))
      else exs @ [a])"
  by (subst mergeAddr.simps) (simp add: portNormal_def split: sum.splits prod.splits)

lemma mergeAddr_from:
  assumes "portNormal lib (address.address a) = Some k"
  shows "mergeAddr lib a exs i =
     (case filter (\<lambda>j. portNormal lib (address.address (exs ! j)) = Some k) [i..<length exs] of
        [] \<Rightarrow> exs @ [a]
      | j # others \<Rightarrow> exs[j := a])"
proof (induction "length exs - i" arbitrary: i)
  case 0
  then show ?case by (simp add: mergeAddr_step)
next
  case (Suc d)
  then have lt: "i < length exs" and d: "d = length exs - Suc i" by simp_all
  show ?case
    using lt assms Suc.hyps(1) [OF d]
    by (subst mergeAddr_step) (simp add: upt_conv_Cons)
qed

lemma mergeAddr_mergeRule:
  "portNormal lib (address.address a) \<noteq> None \<Longrightarrow> mergeAddr lib a exs 0 = mergeRule lib exs a"
  by (auto simp: mergeRule_def mergeAddr_from)

lemma mergeAddr_unparsed:
  "portNormal lib (address.address a) = None \<Longrightarrow>
   mergeAddr lib a exs 0 = (if exs = [] then [a] else exs)"
  by (subst mergeAddr_step) simp

lemma mergeAddrs_foldl:
  "\<forall>a\<in>set addrs. portNormal lib (address.address a) \<noteq> None \<Longrightarrow>
   mergeAddrs lib addrs exs = foldl (mergeRule lib) exs addrs"
  by (induction addrs arbitrary: exs) (simp_all add: mergeAddr_mergeRule)

text \<open>What \<^verbatim>\<open>update\<close> leaves under the key.\<close>

lemma get_update:
  "get (update lib db devid addrs rls) devid =
     (mergeAddrs lib addrs (fst (get db devid)),
      map (\<lambda>rlay. \<lparr>relay.address = Address rlay, latency = Latency rlay\<rparr>) rls)"
  by (simp add: get_def update_def db_Get_def db_Put_def MarshalXDR_def update_conv' Let_def
           split: option.splits)

lemma get_update_other:
  "k \<noteq> devid \<Longrightarrow> get (update lib db devid addrs rls) k = get db k"
  by (simp add: get_def update_def db_Get_def db_Put_def MarshalXDR_def update_conv' Let_def
           split: option.splits)

lemma get_absent: "db_Get db devid = Inl err \<Longrightarrow> get db devid = ([], [])"
  by (simp add: get_def)

lemma mergeRule_single:
  "portNormal lib s \<noteq> None \<Longrightarrow> portNormal lib s' = portNormal lib s \<Longrightarrow>
   mergeRule lib [\<lparr>address.address = s, seen = t\<rparr>] \<lparr>address.address = s', seen = t'\<rparr>
     = [\<lparr>address.address = s', seen = t'\<rparr>]"
  by (simp add: mergeRule_def)

text \<open>
  C2. For every existing record and every incoming list of addresses that parse,
  \<^verbatim>\<open>update\<close> merges the new addresses one after the other by the rule of the
  specification: an existing address with the same port-normalized form (port 22000
  substituted into the host:port of both URIs) is replaced in place by the new address
  and its timestamp, and without one the new address is appended. In particular, for a
  device without a record, announcing an address and then an address with the same
  port-normalized form (the same address again, or the same host with another port)
  leaves exactly one stored address, the second one with its timestamp.
\<close>

theorem update_merges_addresses:
  "((\<forall>a\<in>set addrs. portNormal lib (address.address a) \<noteq> None) \<longrightarrow>
      fst (get (update lib db devid addrs rls) devid)
        = foldl (mergeRule lib) (fst (get db devid)) addrs)
   \<and> (db_Get db devid = Inl ErrNotFound \<and> portNormal lib s \<noteq> None
        \<and> portNormal lib s' = portNormal lib s \<longrightarrow>
      fst (get (update lib (update lib db devid [\<lparr>address.address = s, seen = t\<rparr>] rls)
                 devid [\<lparr>address.address = s', seen = t'\<rparr>] rls') devid)
        = [\<lparr>address.address = s', seen = t'\<rparr>])"
proof (intro conjI impI)
  assume "\<forall>a\<in>set addrs. portNormal lib (address.address a) \<noteq> None"
  then show "fst (get (update lib db devid addrs rls) devid)
               = foldl (mergeRule lib) (fst (get db devid)) addrs"
    by (simp add: get_update mergeAddrs_foldl)
next
  assume h: "db_Get db devid = Inl ErrNotFound \<and> portNormal lib s \<noteq> None
               \<and> portNormal lib s' = portNormal lib s"
  then have "mergeAddr lib \<lparr>address.address = s', seen = t'\<rparr> [\<lparr>address.address = s, seen = t\<rparr>] 0
               = [\<lparr>address.address = s', seen = t'\<rparr>]"
    by (simp add: mergeAddr_mergeRule mergeRule_single)
  moreover have "mergeAddr lib \<lparr>address.address = s, seen = t\<rparr> [] 0 = [\<lparr>address.address = s, seen = t\<rparr>]"
    by (subst mergeAddr_step) simp
  ultimately show "fst (get (update lib (update lib db devid [\<lparr>address.address = s, seen = t\<rparr>] rls)
                 devid [\<lparr>address.address = s', seen = t'\<rparr>] rls') devid)
        = [\<lparr>address.address = s', seen = t'\<rparr>]"
    using h by (simp add: get_update get_absent)
qed

lemma portNormal_9000: "portNormal goNet ''tcp://1.2.3.4:9000'' = Some ''tcp://1.2.3.4:22000''"
  by (simp add: portNormal_def goNet_def go_url_Parse_def plain_def isLetter_def isDigit_def
                hasPrefix_def toLower_def go_SplitHostPort_def lastIndex_def byteIndex_def
                upt_rec go_JoinHostPort_def go_URL_String_def)

lemma portNormal_9001: "portNormal goNet ''tcp://1.2.3.4:9001'' = Some ''tcp://1.2.3.4:22000''"
  by (simp add: portNormal_def goNet_def go_url_Parse_def plain_def isLetter_def isDigit_def
                hasPrefix_def toLower_def go_SplitHostPort_def lastIndex_def byteIndex_def
                upt_rec go_JoinHostPort_def go_URL_String_def)

lemma portNormal_no_port: "portNormal goNet ''tcp://1.2.3.4'' = None"
  by (simp add: portNormal_def goNet_def go_url_Parse_def plain_def isLetter_def isDigit_def
                hasPrefix_def toLower_def go_SplitHostPort_def lastIndex_def byteIndex_def
                upt_rec)

theorem update_merges_addresses_witness:
  "portNormal goNet (address.address \<lparr>address.address = ''tcp://1.2.3.4:9001'', seen = 200\<rparr>)
     \<noteq> None
   \<and> db_Get [] (replicate 32 7) = Inl ErrNotFound
   \<and> portNormal goNet ''tcp://1.2.3.4:9000'' \<noteq> None
   \<and> portNormal goNet ''tcp://1.2.3.4:9001'' = portNormal goNet ''tcp://1.2.3.4:9000''
   \<and> fst (get (update goNet [] (replicate 32 7)
                 [\<lparr>address.address = ''tcp://1.2.3.4:9001'', seen = 200\<rparr>] []) (replicate 32 7))
        = foldl (mergeRule goNet) (fst (get [] (replicate 32 7)))
            [\<lparr>address.address = ''tcp://1.2.3.4:9001'', seen = 200\<rparr>]
   \<and> fst (get (update goNet
                 (update goNet [] (replicate 32 7)
                    [\<lparr>address.address = ''tcp://1.2.3.4:9000'', seen = 100\<rparr>] [])
                 (replicate 32 7) [\<lparr>address.address = ''tcp://1.2.3.4:9001'', seen = 200\<rparr>] [])
             (replicate 32 7))
        = [\<lparr>address.address = ''tcp://1.2.3.4:9001'', seen = 200\<rparr>]
   \<and> fst (get (update goNet
                 (update goNet [] (replicate 32 7)
                    [\<lparr>address.address = ''tcp://1.2.3.4:9000'', seen = 100\<rparr>] [])
                 (replicate 32 7) [\<lparr>address.address = ''tcp://1.2.3.4:9000'', seen = 200\<rparr>] [])
             (replicate 32 7))
        = [\<lparr>address.address = ''tcp://1.2.3.4:9000'', seen = 200\<rparr>]"
  using update_merges_addresses
          [of "[\<lparr>address.address = ''tcp://1.2.3.4:9001'', seen = 200\<rparr>]" goNet "[]"
              "replicate 32 7" "[]" "''tcp://1.2.3.4:9000''" "''tcp://1.2.3.4:9001''" 100 200 "[]"]
        update_merges_addresses
          [of "[]" goNet "[]"
              "replicate 32 7" "[]" "''tcp://1.2.3.4:9000''" "''tcp://1.2.3.4:9000''" 100 200 "[]"]
        portNormal_9000 portNormal_9001
  by (simp add: db_Get_def)

text \<open>With a stored list that is not empty, a new address that does not parse is
  passed over and the merge goes on with the remaining addresses.\<close>

lemma mergeAddrs_skips_unparsed:
  "portNormal lib (address.address a) = None \<Longrightarrow> exs \<noteq> [] \<Longrightarrow>
   mergeAddrs lib (a # addrs) exs = mergeAddrs lib addrs exs"
  by (simp add: mergeAddr_unparsed)







section \<open>Properties of the query handler\<close>

lemma replyAddresses_filter:
  "replyAddresses now as out = out @ map address.address (filter (\<lambda>a. \<not> expired now a) as)"
  by (induction as arbitrary: out) (simp_all add: expired_def)

text \<open>The handler on a query that decodes, for a device with a stored record.\<close>

lemma handleQueryV2_stored:
  assumes "Query_UnmarshalXDR w buf = (pkt, None)"
    and "deviceID w (DeviceID pkt) = Inr devid"
    and "db_Get db devid = Inr (XDR rcd)"
  shows "handleQueryV2 w now werr db conn addr buf g =
     (let fresh = filter (\<lambda>a. \<not> expired now a) (addresses rcd);
          ann = \<lparr>Announce.Magic = AnnouncementMagic w,
                 This = \<lparr>ID = DeviceID pkt,
                         Addresses = map address.address fresh,
                         Relays = map (\<lambda>r. \<lparr>Address = relay.address r, Latency = latency r\<rparr>)
                                    (relays rcd)\<rparr>,
                 Extra = []\<rparr>;
          g = g\<lparr>queries := queries g + 1\<rparr>
      in if fresh = [] then (conn, g, None)
         else (case Announce_MarshalXDR w ann of
                 Inl err \<Rightarrow> (conn, g, None)
               | Inr tb \<Rightarrow>
                   (case werr of
                      None \<Rightarrow> (conn @ [(tb, addr)], g\<lparr>answered := answered g + 1\<rparr>, None)
                    | Some err \<Rightarrow> (conn, g, None))))"
proof (cases "addresses rcd = []")
  case True
  with assms show ?thesis
    by (simp add: handleQueryV2_def get_def)
next
  case False
  with assms show ?thesis
    by (simp add: handleQueryV2_def get_def replyAddresses_filter WriteToUDP_def Let_def
             split: sum.splits option.splits)
qed

lemma queryA_decodes:
  "Query_UnmarshalXDR xdrWire queryA = (\<lparr>Query.Magic = 0x2CA856F6, DeviceID = deviceA\<rparr>, None)"
  by (simp add: xdrWire_def queryA_def xdr_Query_UnmarshalXDR_def getUint32_def getBytes_def
                putUint32_def putBytes_def deviceA_def Uint32_def padded_def)

lemma deviceA_raw: "deviceID w deviceA = Inr deviceA"
  by (simp add: deviceID_def deviceA_def)

text \<open>
  C4. For every query that decodes, on a device id with a stored record: the addresses
  whose last-seen time is older than the retention window are left out of the reply.
  If an address remains, the reply is an Announce packet with the announcement magic,
  the device id as it came in the query, the remaining addresses and the stored
  relays; it is encoded and written to the source of the query, and the counter
  \<^verbatim>\<open>answered\<close> goes up by one when, and only when, the write succeeds (when the
  encoder or the write fails, nothing is sent and the counter stays). If no address
  remains, nothing is sent and \<^verbatim>\<open>answered\<close> stays. The counter \<^verbatim>\<open>queries\<close> goes up by
  one and the handler reports no error in each case.
\<close>

theorem handleQueryV2_reply:
  assumes "Query_UnmarshalXDR w buf = (pkt, None)"
    and "deviceID w (DeviceID pkt) = Inr devid"
    and "db_Get db devid = Inr (XDR rcd)"
    and "fresh = filter (\<lambda>a. \<not> expired now a) (addresses rcd)"
    and "ann = \<lparr>Announce.Magic = AnnouncementMagic w,
                 This = \<lparr>ID = DeviceID pkt,
                         Addresses = map address.address fresh,
                         Relays = map (\<lambda>r. \<lparr>Address = relay.address r, Latency = latency r\<rparr>)
                                    (relays rcd)\<rparr>,
                 Extra = []\<rparr>"
    and "handleQueryV2 w now werr db conn addr buf g = (conn', g', err)"
  shows "err = None \<and> queries g' = queries g + 1
     \<and> (fresh = [] \<longrightarrow> conn' = conn \<and> answered g' = answered g)
     \<and> (fresh \<noteq> [] \<longrightarrow>
          (case Announce_MarshalXDR w ann of
             Inl e \<Rightarrow> conn' = conn \<and> answered g' = answered g
           | Inr tb \<Rightarrow>
               (werr = None \<longrightarrow> conn' = conn @ [(tb, addr)] \<and> answered g' = answered g + 1)
               \<and> (werr \<noteq> None \<longrightarrow> conn' = conn \<and> answered g' = answered g)))"
  using assms(4-6) handleQueryV2_stored [OF assms(1-3), of now werr conn addr g]
  by (auto simp: Let_def split: sum.splits option.splits if_splits)

theorem handleQueryV2_reply_witness:
  "Query_UnmarshalXDR xdrWire queryA = (\<lparr>Query.Magic = 0x2CA856F6, DeviceID = deviceA\<rparr>, None)
   \<and> deviceID xdrWire deviceA = Inr deviceA
   \<and> db_Get [(deviceA,
               XDR \<lparr>addresses = [\<lparr>address.address = ''tcp://192.0.2.1:22000'', seen = 0\<rparr>,
                                  \<lparr>address.address = ''tcp://192.0.2.2:22000'', seen = 5000\<rparr>],
                    relays = [\<lparr>relay.address = ''relay://192.0.2.9:443'', latency = 30\<rparr>]\<rparr>)]
        deviceA
       = Inr (XDR \<lparr>addresses = [\<lparr>address.address = ''tcp://192.0.2.1:22000'', seen = 0\<rparr>,
                                  \<lparr>address.address = ''tcp://192.0.2.2:22000'', seen = 5000\<rparr>],
                    relays = [\<lparr>relay.address = ''relay://192.0.2.9:443'', latency = 30\<rparr>]\<rparr>)
   \<and> filter (\<lambda>a. \<not> expired 7200 a)
             [\<lparr>address.address = ''tcp://192.0.2.1:22000'', seen = 0\<rparr>,
              \<lparr>address.address = ''tcp://192.0.2.2:22000'', seen = 5000\<rparr>]
       = [\<lparr>address.address = ''tcp://192.0.2.2:22000'', seen = 5000\<rparr>]
   \<and> handleQueryV2 xdrWire 7200 None
         [(deviceA,
           XDR \<lparr>addresses = [\<lparr>address.address = ''tcp://192.0.2.1:22000'', seen = 0\<rparr>,
                              \<lparr>address.address = ''tcp://192.0.2.2:22000'', seen = 5000\<rparr>],
                relays = [\<lparr>relay.address = ''relay://192.0.2.9:443'', latency = 30\<rparr>]\<rparr>)]
         [] peer queryA (initialVars defaultFlags)
       = ([(putUint32 0x9D79BC40 @
            putDevice \<lparr>ID = deviceA, Addresses = [''tcp://192.0.2.2:22000''],
                       Relays = [\<lparr>Address = ''relay://192.0.2.9:443'', Latency = 30\<rparr>]\<rparr> @
            putUint32 0, peer)],
          (initialVars defaultFlags)\<lparr>queries := 1, answered := 1\<rparr>, None)"
proof -
  let ?old = "\<lparr>address.address = ''tcp://192.0.2.1:22000'', seen = 0\<rparr>"
  let ?new = "\<lparr>address.address = ''tcp://192.0.2.2:22000'', seen = 5000\<rparr>"
  let ?rcd = "\<lparr>addresses = [?old, ?new],
               relays = [\<lparr>relay.address = ''relay://192.0.2.9:443'', latency = 30\<rparr>]\<rparr>"
  let ?ann = "\<lparr>Announce.Magic = AnnouncementMagic xdrWire,
               This = \<lparr>ID = deviceA, Addresses = [''tcp://192.0.2.2:22000''],
                       Relays = [\<lparr>Address = ''relay://192.0.2.9:443'', Latency = 30\<rparr>]\<rparr>,
               Extra = []\<rparr>"
  have stored: "db_Get [(deviceA, XDR ?rcd)] deviceA = Inr (XDR ?rcd)"
    by (simp add: db_Get_def)
  have raw: "deviceID xdrWire (DeviceID \<lparr>Query.Magic = 0x2CA856F6, DeviceID = deviceA\<rparr>)
               = Inr deviceA"
    by (simp add: deviceA_raw)
  have fresh: "filter (\<lambda>a. \<not> expired 7200 a) [?old, ?new] = [?new]"
    by (simp add: expired_def cacheLimitSeconds_def)
  have enc: "Announce_MarshalXDR xdrWire ?ann
               = Inr (putUint32 0x9D79BC40 @
                      putDevice \<lparr>ID = deviceA, Addresses = [''tcp://192.0.2.2:22000''],
                                 Relays = [\<lparr>Address = ''relay://192.0.2.9:443'', Latency = 30\<rparr>]\<rparr> @
                      putUint32 0)"
    by (simp add: xdrWire_def xdr_Announce_MarshalXDR_def deviceFits_def deviceA_def)
  obtain conn' g' err where
    run: "handleQueryV2 xdrWire 7200 None [(deviceA, XDR ?rcd)] [] peer queryA
            (initialVars defaultFlags) = (conn', g', err)"
    by (cases "handleQueryV2 xdrWire 7200 None [(deviceA, XDR ?rcd)] [] peer queryA
                 (initialVars defaultFlags)") auto
  have g': "g' = (initialVars defaultFlags)\<lparr>queries := 1, answered := 1\<rparr>"
    using run handleQueryV2_stored [OF queryA_decodes raw stored, of 7200 None "[]" peer
                                       "initialVars defaultFlags"] fresh enc
    by (simp add: Let_def initialVars_def)
  have "err = None \<and> conn' = [(putUint32 0x9D79BC40 @
            putDevice \<lparr>ID = deviceA, Addresses = [''tcp://192.0.2.2:22000''],
                       Relays = [\<lparr>Address = ''relay://192.0.2.9:443'', Latency = 30\<rparr>]\<rparr> @
            putUint32 0, peer)]"
    using handleQueryV2_reply [OF queryA_decodes raw stored _ _ run,
                               of "[?new]" ?ann] fresh enc
    by simp
  with run g' stored fresh queryA_decodes deviceA_raw show ?thesis by simp
qed

section \<open>The boundary of the retention window\<close>

text \<open>For timestamps that are not negative the 64-bit subtraction does not wrap, and
  an address is expired exactly when its age in seconds is greater than 3600.\<close>

lemma expired_iff:
  assumes "0 \<le> sint now" and "0 \<le> sint (seen a)"
  shows "expired now a \<longleftrightarrow> 3600 < sint now - sint (seen a)"
proof -
  have "sint now < 2 ^ 63" and "sint (seen a) < 2 ^ 63"
    using sint_lt [of now] sint_lt [of "seen a"] by simp_all
  with assms have "- (2 ^ 63) \<le> sint now - sint (seen a)"
    and "sint now - sint (seen a) < 2 ^ 63"
    by simp_all
  then have "sint (now - seen a) = sint now - sint (seen a)"
    by (simp add: sint_word_diff signed_take_bit_int_eq_self)
  then show ?thesis
    by (simp add: expired_def cacheLimitSeconds_def)
qed

text \<open>
  C10. An address whose age, computed as the code computes it, is not greater than the
  retention window, and in particular one whose age is exactly 3600 seconds, is fresh on
  both paths: a sweep pass at that time keeps the record with the address in it, and
  the reply to a query at that time is built with the address in its list. So only
  ages strictly greater than the window are filtered or pruned.
\<close>

theorem window_boundary_is_fresh:
  assumes "sint (now - seen a) \<le> 3600"
    and "a \<in> set (addresses rcd)"
    and "distinct (map fst db)"
    and "map_of db devid = Some (XDR rcd)"
    and "Query_UnmarshalXDR w buf = (pkt, None)"
    and "deviceID w (DeviceID pkt) = Inr devid"
  shows "(\<exists>rcd'. map_of (store (clean now db)) devid = Some (XDR rcd')
                 \<and> a \<in> set (addresses rcd'))
     \<and> (\<exists>ann. address.address a \<in> set (Addresses (This ann))
              \<and> handleQueryV2 w now werr db conn addr buf g =
                  (case Announce_MarshalXDR w ann of
                     Inl err \<Rightarrow> (conn, g\<lparr>queries := queries g + 1\<rparr>, None)
                   | Inr tb \<Rightarrow>
                       (case werr of
                          None \<Rightarrow> (conn @ [(tb, addr)],
                                    g\<lparr>queries := queries g + 1, answered := answered g + 1\<rparr>, None)
                        | Some err \<Rightarrow> (conn, g\<lparr>queries := queries g + 1\<rparr>, None))))"
proof
  from assms(1) have fresh: "\<not> expired now a"
    by (simp add: expired_def cacheLimitSeconds_def)
  let ?new = "removeExpired now (addresses rcd) 0"
  from assms(2) fresh have in_new: "a \<in> set ?new"
    by (rule removeExpired_keeps)
  then have "?new \<noteq> []" by auto
  with assms(4) have "map_of (store (clean now db)) devid = Some (XDR (rcd\<lparr>addresses := ?new\<rparr>))"
    by (simp add: clean_lookup [OF assms(3)])
  with in_new show "\<exists>rcd'. map_of (store (clean now db)) devid = Some (XDR rcd')
                         \<and> a \<in> set (addresses rcd')"
    by (intro exI [of _ "rcd\<lparr>addresses := ?new\<rparr>"]) simp
next
  from assms(1) have fresh: "\<not> expired now a"
    by (simp add: expired_def cacheLimitSeconds_def)
  let ?fresh = "filter (\<lambda>a. \<not> expired now a) (addresses rcd)"
  let ?ann = "\<lparr>Announce.Magic = AnnouncementMagic w,
               This = \<lparr>ID = DeviceID pkt,
                       Addresses = map address.address ?fresh,
                       Relays = map (\<lambda>r. \<lparr>Address = relay.address r, Latency = latency r\<rparr>)
                                  (relays rcd)\<rparr>,
               Extra = []\<rparr>"
  from assms(2) fresh have mem: "a \<in> set ?fresh" by simp
  then have ne: "?fresh \<noteq> []" by (metis empty_iff list.set(1))
  from mem have "address.address a \<in> set (Addresses (This ?ann))" by simp
  moreover from assms(4) have "db_Get db devid = Inr (XDR rcd)"
    by (simp add: db_Get_def)
  then have "handleQueryV2 w now werr db conn addr buf g =
                  (case Announce_MarshalXDR w ?ann of
                     Inl err \<Rightarrow> (conn, g\<lparr>queries := queries g + 1\<rparr>, None)
                   | Inr tb \<Rightarrow>
                       (case werr of
                          None \<Rightarrow> (conn @ [(tb, addr)],
                                    g\<lparr>queries := queries g + 1, answered := answered g + 1\<rparr>, None)
                        | Some err \<Rightarrow> (conn, g\<lparr>queries := queries g + 1\<rparr>, None)))"
    using handleQueryV2_stored [OF assms(5,6), of db rcd now werr conn addr g] ne
    by (simp add: Let_def split: sum.splits option.splits)
  ultimately show "\<exists>ann. address.address a \<in> set (Addresses (This ann))
              \<and> handleQueryV2 w now werr db conn addr buf g =
                  (case Announce_MarshalXDR w ann of
                     Inl err \<Rightarrow> (conn, g\<lparr>queries := queries g + 1\<rparr>, None)
                   | Inr tb \<Rightarrow>
                       (case werr of
                          None \<Rightarrow> (conn @ [(tb, addr)],
                                    g\<lparr>queries := queries g + 1, answered := answered g + 1\<rparr>, None)
                        | Some err \<Rightarrow> (conn, g\<lparr>queries := queries g + 1\<rparr>, None)))"
    by blast
qed

theorem window_boundary_is_fresh_witness:
  "sint ((4600 :: int64) - seen \<lparr>address.address = ''tcp://192.0.2.1:22000'', seen = 1000\<rparr>) = 3600
   \<and> \<lparr>address.address = ''tcp://192.0.2.1:22000'', seen = 1000\<rparr>
        \<in> set (addresses \<lparr>addresses = [\<lparr>address.address = ''tcp://192.0.2.1:22000'', seen = 1000\<rparr>],
                            relays = []\<rparr>)
   \<and> distinct (map fst
         [(deviceA, XDR \<lparr>addresses = [\<lparr>address.address = ''tcp://192.0.2.1:22000'', seen = 1000\<rparr>],
                         relays = []\<rparr>)])
   \<and> map_of [(deviceA, XDR \<lparr>addresses = [\<lparr>address.address = ''tcp://192.0.2.1:22000'', seen = 1000\<rparr>],
                               relays = []\<rparr>)] deviceA
       = Some (XDR \<lparr>addresses = [\<lparr>address.address = ''tcp://192.0.2.1:22000'', seen = 1000\<rparr>],
                     relays = []\<rparr>)
   \<and> Query_UnmarshalXDR xdrWire queryA = (\<lparr>Query.Magic = 0x2CA856F6, DeviceID = deviceA\<rparr>, None)
   \<and> deviceID xdrWire (DeviceID \<lparr>Query.Magic = 0x2CA856F6, DeviceID = deviceA\<rparr>) = Inr deviceA
   \<and> (\<exists>rcd'. map_of (store (clean 4600
                 [(deviceA, XDR \<lparr>addresses = [\<lparr>address.address = ''tcp://192.0.2.1:22000'', seen = 1000\<rparr>],
                                 relays = []\<rparr>)])) deviceA = Some (XDR rcd')
              \<and> \<lparr>address.address = ''tcp://192.0.2.1:22000'', seen = 1000\<rparr> \<in> set (addresses rcd'))
   \<and> (\<exists>ann. ''tcp://192.0.2.1:22000'' \<in> set (Addresses (This ann))
            \<and> handleQueryV2 xdrWire 4600 None
                 [(deviceA, XDR \<lparr>addresses = [\<lparr>address.address = ''tcp://192.0.2.1:22000'', seen = 1000\<rparr>],
                                 relays = []\<rparr>)]
                 [] peer queryA (initialVars defaultFlags) =
                (case Announce_MarshalXDR xdrWire ann of
                   Inl err \<Rightarrow> ([], (initialVars defaultFlags)
                                       \<lparr>queries := queries (initialVars defaultFlags) + 1\<rparr>, None)
                 | Inr tb \<Rightarrow>
                     ([] @ [(tb, peer)],
                      (initialVars defaultFlags)
                        \<lparr>queries := queries (initialVars defaultFlags) + 1,
                         answered := answered (initialVars defaultFlags) + 1\<rparr>, None)))"
proof -
  let ?a = "\<lparr>address.address = ''tcp://192.0.2.1:22000'', seen = 1000\<rparr>"
  let ?rcd = "\<lparr>addresses = [?a], relays = []\<rparr>"
  have age: "sint ((4600 :: int64) - seen ?a) = 3600" by simp
  then have le: "sint ((4600 :: int64) - seen ?a) \<le> 3600" by simp
  have mem: "?a \<in> set (addresses ?rcd)" by simp
  have dist: "distinct (map fst [(deviceA, XDR ?rcd)])" by simp
  have look: "map_of [(deviceA, XDR ?rcd)] deviceA = Some (XDR ?rcd)" by simp
  have raw: "deviceID xdrWire (DeviceID \<lparr>Query.Magic = 0x2CA856F6, DeviceID = deviceA\<rparr>)
               = Inr deviceA"
    by (simp add: deviceA_raw)
  show ?thesis
    using window_boundary_is_fresh [OF le mem dist look queryA_decodes raw,
                                    of None "[]" peer "initialVars defaultFlags"]
          age mem dist look queryA_decodes raw
    by (simp cong: sum.case_cong)
qed

section \<open>Properties of the rate limiter\<close>

lemma go_quot_nonneg: "0 \<le> a \<Longrightarrow> 0 < b \<Longrightarrow> go_quot a b = a div b"
  by (cases "a = 0") (simp_all add: go_quot_def)

lemma fill_interval_positive:
  "0 < avg \<Longrightarrow> avg \<le> 10 * Second \<Longrightarrow> 0 < go_quot (10 * Second) avg"
  by (simp add: go_quot_nonneg Second_def pos_imp_zdiv_pos_iff)

text \<open>The first packet of a source that has no bucket in the cache.\<close>

lemma limit_new_source:
  assumes "map_of (ll (limiter g)) (IP_String lib (IP a)) = None"
    and "0 < limitAvg fl" and "limitAvg fl \<le> 10 * Second" and "0 < limitBurst fl"
  shows "limit lib fl now (Some a) g =
     Some (False,
           g\<lparr>limiter := lru_Add (limiter g) (IP_String lib (IP a))
                \<lparr>startTime = now, capacity = limitBurst fl, quantum = 1,
                  fillInterval = go_quot (10 * Second) (limitAvg fl),
                  avail = limitBurst fl, availTick = 0\<rparr>\<rparr>)"
  using assms fill_interval_positive [of "limitAvg fl"]
  by (simp add: limit_def lru_Get_def NewBucket_def Let_def)

lemma lru_Add_front:
  assumes "map_of (ll c) key = None" and "0 \<le> MaxEntries c"
  shows "\<exists>rest. ll (lru_Add c key v) = (key, v) # rest"
proof (cases "ll c")
  case Nil
  with assms show ?thesis by (auto simp: lru_Add_def Let_def)
next
  case (Cons e es)
  with assms show ?thesis
    by (cases "es = []") (simp_all add: lru_Add_def Let_def)
qed

lemma lru_Add_MaxEntries: "MaxEntries (lru_Add c key v) = MaxEntries c"
  by (simp add: lru_Add_def Let_def split: option.splits)

text \<open>A later packet of the source, while its bucket is the first entry of the cache
  and no tick has passed since the bucket was made.\<close>

lemma limit_take:
  assumes "ll (limiter g) = (IP_String lib (IP a),
              \<lparr>startTime = t0, capacity = B, quantum = 1, fillInterval = F,
               avail = v, availTick = 0\<rparr>) # rest"
    and "0 < F" and "t0 \<le> t" and "t < t0 + F" and "0 < v" and "v \<le> B"
  shows "limit lib fl t (Some a) g =
     Some (False,
           g\<lparr>limiter := (limiter g)\<lparr>ll := (IP_String lib (IP a),
                 \<lparr>startTime = t0, capacity = B, quantum = 1, fillInterval = F,
                  avail = v - 1, availTick = 0\<rparr>) # AList.delete (IP_String lib (IP a)) rest\<rparr>\<rparr>)"
proof -
  have "go_quot (t - t0) F = 0"
    using assms(2-4) by (simp add: go_quot_nonneg)
  then show ?thesis
    using assms
    by (simp add: limit_def lru_Get_def TakeAvailable_def adjust_def Let_def lru_front_def)
qed

lemma limit_empty:
  assumes "ll (limiter g) = (IP_String lib (IP a),
              \<lparr>startTime = t0, capacity = B, quantum = 1, fillInterval = F,
               avail = 0, availTick = 0\<rparr>) # rest"
    and "0 < F" and "t0 \<le> t" and "t < t0 + F" and "0 < B"
  shows "limit lib fl t (Some a) g =
     Some (True,
           g\<lparr>limiter := (limiter g)\<lparr>ll := (IP_String lib (IP a),
                 \<lparr>startTime = t0, capacity = B, quantum = 1, fillInterval = F,
                  avail = 0, availTick = 0\<rparr>) # AList.delete (IP_String lib (IP a)) rest\<rparr>,
             limited := limited g + 1\<rparr>)"
proof -
  have "go_quot (t - t0) F = 0"
    using assms(2-4) by (simp add: go_quot_nonneg)
  then show ?thesis
    using assms
    by (simp add: limit_def lru_Get_def TakeAvailable_def adjust_def Let_def lru_front_def)
qed

text \<open>A run of packets within the first tick, from a bucket with \<open>v\<close> tokens: the
  first \<open>v\<close> packets are admitted, the others are dropped and counted.\<close>

lemma limits_within_tick:
  assumes "0 < F" and "0 < B"
  shows "ll (limiter g) = (IP_String lib (IP a),
              \<lparr>startTime = t0, capacity = B, quantum = 1, fillInterval = F,
               avail = int v, availTick = 0\<rparr>) # rest \<Longrightarrow>
         int v \<le> B \<Longrightarrow> \<forall>t\<in>set ts. t0 \<le> t \<and> t < t0 + F \<Longrightarrow>
         \<exists>g'. limits lib fl a ts g
                 = Some (replicate (min v (length ts)) False @ replicate (length ts - v) True, g')
              \<and> limited g' = limited g + int (length ts - v)"
proof (induction ts arbitrary: g v rest)
  case Nil
  then show ?case by simp
next
  case (Cons t ts)
  from Cons.prems(3) have t: "t0 \<le> t" "t < t0 + F" and ts: "\<forall>t\<in>set ts. t0 \<le> t \<and> t < t0 + F"
    by simp_all
  show ?case
  proof (cases v)
    case 0
    let ?g = "g\<lparr>limiter := (limiter g)\<lparr>ll := (IP_String lib (IP a),
                 \<lparr>startTime = t0, capacity = B, quantum = 1, fillInterval = F,
                  avail = 0, availTick = 0\<rparr>) # AList.delete (IP_String lib (IP a)) rest\<rparr>,
               limited := limited g + 1\<rparr>"
    have step: "limit lib fl t (Some a) g = Some (True, ?g)"
      using Cons.prems(1) 0 assms t by (intro limit_empty) simp_all
    have "ll (limiter ?g) = (IP_String lib (IP a),
              \<lparr>startTime = t0, capacity = B, quantum = 1, fillInterval = F,
               avail = int 0, availTick = 0\<rparr>) # AList.delete (IP_String lib (IP a)) rest"
      by simp
    from Cons.IH [OF this _ ts] assms obtain g' where
      "limits lib fl a ts ?g = Some (replicate (min 0 (length ts)) False @ replicate (length ts - 0) True, g')"
      and "limited g' = limited ?g + int (length ts - 0)"
      by auto
    with step 0 show ?thesis by simp
  next
    case (Suc u)
    let ?g = "g\<lparr>limiter := (limiter g)\<lparr>ll := (IP_String lib (IP a),
                 \<lparr>startTime = t0, capacity = B, quantum = 1, fillInterval = F,
                  avail = int u, availTick = 0\<rparr>) # AList.delete (IP_String lib (IP a)) rest\<rparr>\<rparr>"
    have step: "limit lib fl t (Some a) g = Some (False, ?g)"
      using limit_take [OF Cons.prems(1) assms(1) t, of fl] Cons.prems(2) Suc by simp
    have "ll (limiter ?g) = (IP_String lib (IP a),
              \<lparr>startTime = t0, capacity = B, quantum = 1, fillInterval = F,
               avail = int u, availTick = 0\<rparr>) # AList.delete (IP_String lib (IP a)) rest"
      by simp
    from Cons.IH [OF this _ ts] Cons.prems(2) Suc obtain g' where
      "limits lib fl a ts ?g = Some (replicate (min u (length ts)) False @ replicate (length ts - u) True, g')"
      and "limited g' = limited ?g + int (length ts - u)"
      by auto
    with step Suc show ?thesis by simp
  qed
qed

text \<open>A run of packets from a new source, all within the first tick of its bucket.\<close>

lemma limits_new_source:
  assumes "map_of (ll (limiter g)) (IP_String lib (IP a)) = None"
    and "0 < limitAvg fl" and "limitAvg fl \<le> 10 * Second" and "0 < limitBurst fl"
    and "0 \<le> MaxEntries (limiter g)"
    and "\<forall>t\<in>set ts. t0 \<le> t \<and> t < t0 + go_quot (10 * Second) (limitAvg fl)"
  shows "\<exists>g'. limits lib fl a (t0 # ts) g
                 = Some (False # replicate (min (nat (limitBurst fl)) (length ts)) False
                           @ replicate (length ts - nat (limitBurst fl)) True, g')
              \<and> limited g' = limited g + int (length ts - nat (limitBurst fl))"
proof -
  let ?F = "go_quot (10 * Second) (limitAvg fl)"
  let ?b = "\<lparr>startTime = t0, capacity = limitBurst fl, quantum = 1, fillInterval = ?F,
             avail = limitBurst fl, availTick = 0\<rparr>"
  let ?g = "g\<lparr>limiter := lru_Add (limiter g) (IP_String lib (IP a)) ?b\<rparr>"
  have first: "limit lib fl t0 (Some a) g = Some (False, ?g)"
    using assms(1-4) by (rule limit_new_source)
  from lru_Add_front [OF assms(1,5)] obtain rest where
    "ll (lru_Add (limiter g) (IP_String lib (IP a)) ?b) = (IP_String lib (IP a), ?b) # rest"
    by blast
  then have shape: "ll (limiter ?g) = (IP_String lib (IP a),
      \<lparr>startTime = t0, capacity = limitBurst fl, quantum = 1, fillInterval = ?F,
       avail = int (nat (limitBurst fl)), availTick = 0\<rparr>) # rest"
    using assms(4) by simp
  have F: "0 < ?F"
    using assms(2,3) by (rule fill_interval_positive)
  from limits_within_tick [OF F assms(4) shape _ assms(6), of fl] assms(4) obtain g' where
    "limits lib fl a ts ?g
       = Some (replicate (min (nat (limitBurst fl)) (length ts)) False
                 @ replicate (length ts - nat (limitBurst fl)) True, g')"
    and "limited g' = limited ?g + int (length ts - nat (limitBurst fl))"
    by auto
  with first show ?thesis by simp
qed

lemma peer_key: "IP_String goNet (IP peer) = ''203.0.113.5''"
  by (simp add: goNet_def go_IP_String_def To4_def itod.simps peer_def)

lemma initial_cache_empty: "ll (limiter (initialVars fl)) = []"
  by (simp add: initialVars_def lru_New_def)

text \<open>
  C5. For every source IP that has no bucket in the limiter cache (and a configuration
  for which the bucket can be made: a positive burst size, and a positive average that
  leaves the fill interval of 10 seconds divided by the average, in nanoseconds,
  positive), \<^verbatim>\<open>limit\<close> does not drop the
  packet, leaves the counter \<^verbatim>\<open>limited\<close> as it is, and puts a new bucket for the source
  in front of the cache: its capacity is the configured burst, its fill interval is
  10 seconds divided by the configured average, and all its tokens are available, none
  having been taken for this packet.
\<close>

theorem first_packet_admitted:
  assumes "map_of (ll (limiter g)) (IP_String lib (IP a)) = None"
    and "0 < limitAvg fl" and "limitAvg fl \<le> 10 * Second" and "0 < limitBurst fl"
    and "0 \<le> MaxEntries (limiter g)"
  shows "\<exists>g' bkt rest.
           limit lib fl now (Some a) g = Some (False, g')
         \<and> limited g' = limited g
         \<and> ll (limiter g') = (IP_String lib (IP a), bkt) # rest
         \<and> capacity bkt = limitBurst fl
         \<and> fillInterval bkt = go_quot (10 * Second) (limitAvg fl)
         \<and> quantum bkt = 1
         \<and> avail bkt = capacity bkt"
proof -
  let ?b = "\<lparr>startTime = now, capacity = limitBurst fl, quantum = 1,
             fillInterval = go_quot (10 * Second) (limitAvg fl),
             avail = limitBurst fl, availTick = 0\<rparr>"
  from lru_Add_front [OF assms(1,5)] obtain rest where
    "ll (lru_Add (limiter g) (IP_String lib (IP a)) ?b) = (IP_String lib (IP a), ?b) # rest"
    by blast
  with limit_new_source [OF assms(1-4), of now] show ?thesis by simp
qed

theorem first_packet_admitted_witness:
  "map_of (ll (limiter (initialVars defaultFlags))) (IP_String goNet (IP peer)) = None
   \<and> 0 < limitAvg defaultFlags \<and> limitAvg defaultFlags \<le> 10 * Second
   \<and> 0 < limitBurst defaultFlags
   \<and> 0 \<le> MaxEntries (limiter (initialVars defaultFlags))
   \<and> (\<exists>g' bkt rest.
           limit goNet defaultFlags 0 (Some peer) (initialVars defaultFlags) = Some (False, g')
         \<and> limited g' = 0
         \<and> ll (limiter g') = (''203.0.113.5'', bkt) # rest
         \<and> capacity bkt = 10
         \<and> fillInterval bkt = 10000000000
         \<and> quantum bkt = 1
         \<and> avail bkt = 10)"
proof -
  have h1: "map_of (ll (limiter (initialVars defaultFlags))) (IP_String goNet (IP peer)) = None"
    by (simp add: initial_cache_empty)
  have h2: "0 < limitAvg defaultFlags" and h3: "limitAvg defaultFlags \<le> 10 * Second"
    and h4: "0 < limitBurst defaultFlags"
    by (simp_all add: defaultFlags_def Second_def)
  have h5: "0 \<le> MaxEntries (limiter (initialVars defaultFlags))"
    by (simp add: initialVars_def lru_New_def defaultFlags_def)
  have F: "go_quot (10 * Second) (limitAvg defaultFlags) = 10000000000"
    by (simp add: go_quot_def Second_def defaultFlags_def)
  have B: "limitBurst defaultFlags = 10" and L: "limited (initialVars defaultFlags) = 0"
    by (simp_all add: defaultFlags_def initialVars_def)
  from first_packet_admitted [OF h1 h2 h3 h4 h5, of 0] obtain g' bkt rest where
    "limit goNet defaultFlags 0 (Some peer) (initialVars defaultFlags) = Some (False, g')"
    "limited g' = limited (initialVars defaultFlags)"
    "ll (limiter g') = (IP_String goNet (IP peer), bkt) # rest"
    "capacity bkt = limitBurst defaultFlags"
    "fillInterval bkt = go_quot (10 * Second) (limitAvg defaultFlags)"
    "quantum bkt = 1" "avail bkt = capacity bkt"
    by blast
  then have "\<exists>g' bkt rest.
           limit goNet defaultFlags 0 (Some peer) (initialVars defaultFlags) = Some (False, g')
         \<and> limited g' = 0
         \<and> ll (limiter g') = (''203.0.113.5'', bkt) # rest
         \<and> capacity bkt = 10
         \<and> fillInterval bkt = 10000000000
         \<and> quantum bkt = 1
         \<and> avail bkt = 10"
    using F B L peer_key by auto
  with h1 h2 h3 h4 h5 show ?thesis by blast
qed

text \<open>
  C3. For a new source that sends burst + 1 packets at once, the last packet, number
  burst + 1, is claimed to be rejected. With the default configuration (burst 10) all
  eleven packets are admitted: the first one makes the bucket and takes no token, and
  each of the ten others finds a token.
\<close>

theorem eleventh_packet_admitted:
  "map_option fst (limits goNet defaultFlags peer [0, 0, 0, 0, 0, 0, 0, 0, 0, 0, 0]
                     (initialVars defaultFlags))
     = Some [False, False, False, False, False, False, False, False, False, False, False]"
proof -
  have h1: "map_of (ll (limiter (initialVars defaultFlags))) (IP_String goNet (IP peer)) = None"
    by (simp add: initial_cache_empty)
  have h2: "0 < limitAvg defaultFlags" and h3: "limitAvg defaultFlags \<le> 10 * Second"
    and h4: "0 < limitBurst defaultFlags"
    by (simp_all add: defaultFlags_def Second_def)
  have h5: "0 \<le> MaxEntries (limiter (initialVars defaultFlags))"
    by (simp add: initialVars_def lru_New_def defaultFlags_def)
  have h6: "\<forall>t\<in>set [0, 0, 0, 0, 0, 0, 0, 0, 0, 0].
              (0::int) \<le> t \<and> t < 0 + go_quot (10 * Second) (limitAvg defaultFlags)"
    by (simp add: go_quot_def Second_def defaultFlags_def)
  have B: "nat (limitBurst defaultFlags) = 10"
    by (simp add: defaultFlags_def)
  from limits_new_source [OF h1 h2 h3 h4 h5 h6] show ?thesis
    unfolding B by (auto simp: numeral_eq_Suc)
qed

text \<open>A packet that arrives at least one tick after the last credit of a bucket that
  is not overdrawn finds a token.\<close>

lemma TakeAvailable_after_tick:
  assumes "0 < fillInterval b" and "0 < capacity b" and "quantum b = 1" and "0 \<le> avail b"
    and "startTime b \<le> t" and "availTick b < (t - startTime b) div fillInterval b"
  shows "snd (TakeAvailable t b 1) = 1
       \<and> 0 \<le> avail (fst (TakeAvailable t b 1))
       \<and> availTick (fst (TakeAvailable t b 1)) \<le> (t - startTime b) div fillInterval b
       \<and> startTime (fst (TakeAvailable t b 1)) = startTime b
       \<and> fillInterval (fst (TakeAvailable t b 1)) = fillInterval b
       \<and> capacity (fst (TakeAvailable t b 1)) = capacity b
       \<and> quantum (fst (TakeAvailable t b 1)) = quantum b"
proof -
  have q: "go_quot (t - startTime b) (fillInterval b) = (t - startTime b) div fillInterval b"
    using assms(1,5) by (simp add: go_quot_nonneg)
  show ?thesis
  proof (cases "capacity b \<le> avail b")
    case True
    with assms show ?thesis
      by (simp add: TakeAvailable_def adjust_def q Let_def)
  next
    case False
    with assms show ?thesis
      by (simp add: TakeAvailable_def adjust_def q Let_def)
  qed
qed

lemma limit_after_tick:
  assumes "ll (limiter g) = (IP_String lib (IP a), b) # rest"
    and "0 < fillInterval b" and "0 < capacity b" and "quantum b = 1" and "0 \<le> avail b"
    and "startTime b \<le> t" and "availTick b < (t - startTime b) div fillInterval b"
  shows "limit lib fl t (Some a) g =
           Some (False, g\<lparr>limiter := (limiter g)\<lparr>ll := (IP_String lib (IP a), fst (TakeAvailable t b 1))
                                          # AList.delete (IP_String lib (IP a)) rest\<rparr>\<rparr>)"
proof -
  obtain b' taken where tk: "TakeAvailable t b 1 = (b', taken)"
    by (cases "TakeAvailable t b 1")
  with TakeAvailable_after_tick [OF assms(2-7)] have "taken = 1" by simp
  with assms(1) tk show ?thesis
    by (simp add: limit_def lru_Get_def lru_front_def Let_def)
qed

text \<open>A run of packets of one source that arrive at least one fill interval apart,
  the first of them at least one fill interval after the time \<open>p\<close> of the last
  credit: all are admitted.\<close>

lemma limits_paced_from:
  "ll (limiter g) = (IP_String lib (IP a), b) # rest \<Longrightarrow>
   0 < fillInterval b \<Longrightarrow> 0 < capacity b \<Longrightarrow> quantum b = 1 \<Longrightarrow> 0 \<le> avail b \<Longrightarrow>
   startTime b \<le> p \<Longrightarrow> availTick b \<le> (p - startTime b) div fillInterval b \<Longrightarrow>
   successively (\<lambda>s t. s + fillInterval b \<le> t) (p # ts) \<Longrightarrow>
   \<exists>g'. limits lib fl a ts g = Some (replicate (length ts) False, g') \<and> limited g' = limited g"
proof (induction ts arbitrary: g b rest p)
  case Nil
  then show ?case by simp
next
  case (Cons t ts)
  let ?b = "fst (TakeAvailable t b 1)"
  let ?g = "g\<lparr>limiter := (limiter g)\<lparr>ll := (IP_String lib (IP a), ?b)
                                          # AList.delete (IP_String lib (IP a)) rest\<rparr>\<rparr>"
  from Cons.prems(8) have gap: "p + fillInterval b \<le> t"
    and later: "successively (\<lambda>s t. s + fillInterval b \<le> t) (t # ts)"
    by simp_all
  from gap Cons.prems(2,6) have t: "startTime b \<le> t" by simp
  have "(p - startTime b) div fillInterval b + 1 = (p - startTime b + fillInterval b) div fillInterval b"
    using Cons.prems(2) div_add_self2 [of "fillInterval b" "p - startTime b"] by simp
  also have "\<dots> \<le> (t - startTime b) div fillInterval b"
    using gap Cons.prems(2) by (intro zdiv_mono1) simp_all
  finally have tick: "availTick b < (t - startTime b) div fillInterval b"
    using Cons.prems(7) by simp
  note take = TakeAvailable_after_tick [OF Cons.prems(2-5) t tick]
  have step: "limit lib fl t (Some a) g = Some (False, ?g)"
    using Cons.prems(1-5) t tick by (rule limit_after_tick)
  have shape: "ll (limiter ?g) = (IP_String lib (IP a), ?b) # AList.delete (IP_String lib (IP a)) rest"
    by simp
  have "\<exists>g'. limits lib fl a ts ?g = Some (replicate (length ts) False, g') \<and> limited g' = limited ?g"
  proof (rule Cons.IH [OF shape, of t])
    show "0 < fillInterval ?b" "0 < capacity ?b" "quantum ?b = 1" "0 \<le> avail ?b"
      using take Cons.prems(2-4) by simp_all
    show "startTime ?b \<le> t" using take t by simp
    show "availTick ?b \<le> (t - startTime ?b) div fillInterval ?b" using take by simp
    show "successively (\<lambda>s t. s + fillInterval ?b \<le> t) (t # ts)" using take later by simp
  qed
  with step show ?case by auto
qed

lemma limits_paced:
  assumes "map_of (ll (limiter g)) (IP_String lib (IP a)) = None"
    and "0 < limitAvg fl" and "limitAvg fl \<le> 10 * Second" and "0 < limitBurst fl"
    and "0 \<le> MaxEntries (limiter g)"
    and "successively (\<lambda>s t. s + go_quot (10 * Second) (limitAvg fl) \<le> t) (t0 # ts)"
  shows "\<exists>g'. limits lib fl a (t0 # ts) g = Some (replicate (Suc (length ts)) False, g')
              \<and> limited g' = limited g"
proof -
  let ?F = "go_quot (10 * Second) (limitAvg fl)"
  let ?b = "\<lparr>startTime = t0, capacity = limitBurst fl, quantum = 1, fillInterval = ?F,
             avail = limitBurst fl, availTick = 0\<rparr>"
  let ?g = "g\<lparr>limiter := lru_Add (limiter g) (IP_String lib (IP a)) ?b\<rparr>"
  have first: "limit lib fl t0 (Some a) g = Some (False, ?g)"
    using assms(1-4) by (rule limit_new_source)
  from lru_Add_front [OF assms(1,5)] obtain rest where
    "ll (lru_Add (limiter g) (IP_String lib (IP a)) ?b) = (IP_String lib (IP a), ?b) # rest"
    by blast
  then have shape: "ll (limiter ?g) = (IP_String lib (IP a), ?b) # rest"
    by simp
  have F: "0 < ?F"
    using assms(2,3) by (rule fill_interval_positive)
  have "\<exists>g'. limits lib fl a ts ?g = Some (replicate (length ts) False, g') \<and> limited g' = limited ?g"
  proof (rule limits_paced_from [OF shape, of t0])
    show "0 < fillInterval ?b" using F by simp
    show "0 < capacity ?b" "quantum ?b = 1" "0 \<le> avail ?b" using assms(4) by simp_all
    show "startTime ?b \<le> t0" by simp
    show "availTick ?b \<le> (t0 - startTime ?b) div fillInterval ?b" by simp
    show "successively (\<lambda>s t. s + fillInterval ?b \<le> t) (t0 # ts)" using assms(6) by simp
  qed
  with first show ?thesis by auto
qed

text \<open>
  C3, as the code has it. For a new source and a configuration as in C5: packets that
  arrive at least one fill interval apart (a rate under the configured average) are all
  admitted; and in a run of burst + 2 packets that all arrive before the bucket's first
  tick (no refill in between), the first burst + 1 packets are admitted and the last
  one, number burst + 2, is rejected and counted in \<^verbatim>\<open>limited\<close>.
\<close>

theorem burst_plus_two_rejected:
  assumes "map_of (ll (limiter g)) (IP_String lib (IP a)) = None"
    and "0 < limitAvg fl" and "limitAvg fl \<le> 10 * Second" and "0 < limitBurst fl"
    and "0 \<le> MaxEntries (limiter g)"
  shows "(successively (\<lambda>s t. s + go_quot (10 * Second) (limitAvg fl) \<le> t) (t0 # ts) \<longrightarrow>
            (\<exists>g'. limits lib fl a (t0 # ts) g = Some (replicate (Suc (length ts)) False, g')
                 \<and> limited g' = limited g))
       \<and> (length us = nat (limitBurst fl) + 1
            \<and> (\<forall>t\<in>set us. t0 \<le> t \<and> t < t0 + go_quot (10 * Second) (limitAvg fl)) \<longrightarrow>
            (\<exists>g'. limits lib fl a (t0 # us) g
                     = Some (replicate (nat (limitBurst fl) + 1) False @ [True], g')
                 \<and> limited g' = limited g + 1))"
proof (intro conjI impI)
  assume "successively (\<lambda>s t. s + go_quot (10 * Second) (limitAvg fl) \<le> t) (t0 # ts)"
  with assms show "\<exists>g'. limits lib fl a (t0 # ts) g = Some (replicate (Suc (length ts)) False, g')
                       \<and> limited g' = limited g"
    by (rule limits_paced)
next
  assume us: "length us = nat (limitBurst fl) + 1
                \<and> (\<forall>t\<in>set us. t0 \<le> t \<and> t < t0 + go_quot (10 * Second) (limitAvg fl))"
  then have "\<forall>t\<in>set us. t0 \<le> t \<and> t < t0 + go_quot (10 * Second) (limitAvg fl)" by simp
  from limits_new_source [OF assms this] us
  show "\<exists>g'. limits lib fl a (t0 # us) g
                = Some (replicate (nat (limitBurst fl) + 1) False @ [True], g')
             \<and> limited g' = limited g + 1"
    by (auto simp: replicate_app_Cons_same)
qed

theorem burst_plus_two_rejected_witness:
  "map_of (ll (limiter (initialVars defaultFlags))) (IP_String goNet (IP peer)) = None
   \<and> 0 < limitAvg defaultFlags \<and> limitAvg defaultFlags \<le> 10 * Second
   \<and> 0 < limitBurst defaultFlags
   \<and> 0 \<le> MaxEntries (limiter (initialVars defaultFlags))
   \<and> successively (\<lambda>s t. s + go_quot (10 * Second) (limitAvg defaultFlags) \<le> t)
        [0, 10000000000, 25000000000]
   \<and> (\<exists>g'. limits goNet defaultFlags peer [0, 10000000000, 25000000000] (initialVars defaultFlags)
               = Some ([False, False, False], g')
            \<and> limited g' = 0)
   \<and> length [1, 2, 3, 4, 5, 6, 7, 8, 9, 10, 11 :: int] = nat (limitBurst defaultFlags) + 1
   \<and> list_all (\<lambda>t. (0::int) \<le> t \<and> t < 0 + go_quot (10 * Second) (limitAvg defaultFlags))
        [1, 2, 3, 4, 5, 6, 7, 8, 9, 10, 11]
   \<and> (\<exists>g'. limits goNet defaultFlags peer [0, 1, 2, 3, 4, 5, 6, 7, 8, 9, 10, 11]
               (initialVars defaultFlags)
               = Some ([False, False, False, False, False, False, False, False, False, False,
                        False, True], g')
            \<and> limited g' = 1)"
proof -
  have h1: "map_of (ll (limiter (initialVars defaultFlags))) (IP_String goNet (IP peer)) = None"
    by (simp add: initial_cache_empty)
  have h2: "0 < limitAvg defaultFlags" and h3: "limitAvg defaultFlags \<le> 10 * Second"
    and h4: "0 < limitBurst defaultFlags"
    by (simp_all add: defaultFlags_def Second_def)
  have h5: "0 \<le> MaxEntries (limiter (initialVars defaultFlags))"
    by (simp add: initialVars_def lru_New_def defaultFlags_def)
  have F: "go_quot (10 * Second) (limitAvg defaultFlags) = 10000000000"
    by (simp add: go_quot_def Second_def defaultFlags_def)
  have B: "nat (limitBurst defaultFlags) = 10" and L: "limited (initialVars defaultFlags) = 0"
    by (simp_all add: defaultFlags_def initialVars_def)
  have paced: "successively (\<lambda>s t. s + go_quot (10 * Second) (limitAvg defaultFlags) \<le> t)
                 [0, 10000000000, 25000000000]"
    by (simp add: F)
  have len: "length [1, 2, 3, 4, 5, 6, 7, 8, 9, 10, 11 :: int] = nat (limitBurst defaultFlags) + 1"
    by (simp add: B)
  have within: "\<forall>t\<in>set [1, 2, 3, 4, 5, 6, 7, 8, 9, 10, 11].
         (0::int) \<le> t \<and> t < 0 + go_quot (10 * Second) (limitAvg defaultFlags)"
    by (simp add: F)
  note inst = burst_plus_two_rejected [OF h1 h2 h3 h4 h5, of 0]
  have c1: "\<exists>g'. limits goNet defaultFlags peer [0, 10000000000, 25000000000] (initialVars defaultFlags)
               = Some ([False, False, False], g')
            \<and> limited g' = 0"
    using inst [of "[10000000000, 25000000000]" "[]", THEN conjunct1] paced L
    by (simp add: numeral_eq_Suc)
  have c2: "\<exists>g'. limits goNet defaultFlags peer [0, 1, 2, 3, 4, 5, 6, 7, 8, 9, 10, 11]
               (initialVars defaultFlags)
               = Some ([False, False, False, False, False, False, False, False, False, False,
                        False, True], g')
            \<and> limited g' = 1"
    using inst [of "[]" "[1, 2, 3, 4, 5, 6, 7, 8, 9, 10, 11]", THEN conjunct2] len within L
    unfolding B by (simp add: numeral_eq_Suc)
  from within have "list_all (\<lambda>t. (0::int) \<le> t \<and> t < 0 + go_quot (10 * Second) (limitAvg defaultFlags))
        [1, 2, 3, 4, 5, 6, 7, 8, 9, 10, 11]"
    by (simp only: list_all_iff)
  with h1 h2 h3 h4 h5 paced c1 len c2 show ?thesis by blast
qed

section \<open>Properties of the announce handler\<close>

lemma announcedAddrs_append:
  "announcedAddrs lib ip now ss acc = acc @ announcedAddrs lib ip now ss []"
proof (induction ss arbitrary: acc)
  case Nil
  then show ?case by simp
next
  case (Cons s ss)
  show ?case
    using Cons.IH [of "acc @ _"] Cons.IH [of "[_]"] Cons.IH [of acc]
    by (simp split: sum.splits prod.splits add: Let_def)
qed

lemma announcedAddrs_single:
  "announcedAddrs lib ip now [s] [] =
     (case url_Parse lib s of
        Inl err \<Rightarrow> []
      | Inr uri \<Rightarrow>
          (case net_SplitHostPort lib (Host uri) of
             Inl err \<Rightarrow> []
           | Inr (host, port) \<Rightarrow>
               [\<lparr>address.address =
                    URL_String lib (if host = []
                                    then uri\<lparr>Host := net_JoinHostPort lib (IP_String lib ip) port\<rparr>
                                    else uri),
                  seen = now\<rparr>]))"
  by (simp split: sum.splits prod.splits add: Let_def)

text \<open>The handler on a packet that decodes (without error, or with \<^verbatim>\<open>io.EOF\<close>) and
  carries a device id.\<close>

lemma handleAnnounceV2_decoded:
  assumes "Announce_UnmarshalXDR w buf = (pkt, derr)" and "derr = None \<or> derr = Some EOF"
    and "deviceID w (ID (This pkt)) = Inr devid"
  shows "handleAnnounceV2 w lib now db addr buf g =
     (update lib db devid
        (announcedAddrs lib (if To4 (IP addr) = [] then To16 (IP addr) else To4 (IP addr)) now
           (Addresses (This pkt)) [])
        (Relays (This pkt)),
      g\<lparr>announces := announces g + 1\<rparr>, None)"
  using assms by (auto simp: handleAnnounceV2_def Let_def)

text \<open>The loop over the addresses of the packet makes of each address what
  \<^const>\<open>announced\<close> makes of it, in the order of the packet.\<close>

lemma announcedAddrs_concat:
  "announcedAddrs lib ip now ss acc = acc @ concat (map (announced lib ip now) ss)"
  by (induction ss arbitrary: acc)
     (simp_all add: announced_def Let_def split: sum.splits prod.splits)

lemma announced_unparsed: "portNormal lib s = None \<Longrightarrow> announced lib ip now s = []"
  by (auto simp: portNormal_def announced_def split: sum.splits prod.splits)

lemma handleAnnounceV2_handed:
  assumes "Announce_UnmarshalXDR w buf = (pkt, derr)" and "derr = None \<or> derr = Some EOF"
    and "deviceID w (ID (This pkt)) = Inr devid"
  shows "handleAnnounceV2 w lib now db addr buf g =
     (update lib db devid
        (concat (map (announced lib (if To4 (IP addr) = [] then To16 (IP addr) else To4 (IP addr)) now)
                   (Addresses (This pkt))))
        (Relays (This pkt)),
      g\<lparr>announces := announces g + 1\<rparr>, None)"
  by (simp add: handleAnnounceV2_decoded [OF assms] announcedAddrs_concat)

lemma mergeAddr_Nil: "mergeAddr lib a [] i = [a]"
  by (subst mergeAddr_step) simp

lemma announce_single_stored:
  assumes "Announce_UnmarshalXDR w buf = (pkt, derr)" and "derr = None \<or> derr = Some EOF"
    and "deviceID w (ID (This pkt)) = Inr devid"
    and "db_Get db devid = Inl ErrNotFound"
    and "Addresses (This pkt) = [s]"
  shows "fst (get (fst (handleAnnounceV2 w lib now db addr buf g)) devid)
           = announcedAddrs lib (if To4 (IP addr) = [] then To16 (IP addr) else To4 (IP addr)) now [s] []"
proof -
  have "mergeAddrs lib (announcedAddrs lib (if To4 (IP addr) = [] then To16 (IP addr) else To4 (IP addr)) now [s] []) []
          = announcedAddrs lib (if To4 (IP addr) = [] then To16 (IP addr) else To4 (IP addr)) now [s] []"
    by (simp add: mergeAddr_Nil split: sum.splits prod.splits)
  then show ?thesis
    using assms(4,5)
    by (simp only: handleAnnounceV2_decoded [OF assms(1-3)] fst_conv get_update get_absent)
qed

lemma parse_4000:
  "url_Parse goNet ''tcp://:4000''
     = Inr \<lparr>Scheme = ''tcp'', Opaque = [], User = None, Host = '':4000'', Path = [],
            RawQuery = [], Fragment = []\<rparr>"
  by (simp add: goNet_def go_url_Parse_def plain_def isLetter_def isDigit_def hasPrefix_def
                toLower_def)

lemma split_4000: "net_SplitHostPort goNet '':4000'' = Inr ([], ''4000'')"
  by (simp add: goNet_def go_SplitHostPort_def lastIndex_def byteIndex_def upt_rec)

lemma parse_upper:
  "url_Parse goNet ''TCP://1.2.3.4:22000''
     = Inr \<lparr>Scheme = ''tcp'', Opaque = [], User = None, Host = ''1.2.3.4:22000'', Path = [],
            RawQuery = [], Fragment = []\<rparr>"
  by (simp add: goNet_def go_url_Parse_def plain_def isLetter_def isDigit_def hasPrefix_def
                toLower_def)

lemma parse_22000:
  "url_Parse goNet ''tcp://1.2.3.4:22000''
     = Inr \<lparr>Scheme = ''tcp'', Opaque = [], User = None, Host = ''1.2.3.4:22000'', Path = [],
            RawQuery = [], Fragment = []\<rparr>"
  by (simp add: goNet_def go_url_Parse_def plain_def isLetter_def isDigit_def hasPrefix_def
                toLower_def)

lemma split_22000: "net_SplitHostPort goNet ''1.2.3.4:22000'' = Inr (''1.2.3.4'', ''22000'')"
  by (simp add: goNet_def go_SplitHostPort_def lastIndex_def byteIndex_def upt_rec)

lemma parse_no_port:
  "url_Parse goNet ''tcp://1.2.3.4''
     = Inr \<lparr>Scheme = ''tcp'', Opaque = [], User = None, Host = ''1.2.3.4'', Path = [],
            RawQuery = [], Fragment = []\<rparr>"
  by (simp add: goNet_def go_url_Parse_def plain_def isLetter_def isDigit_def hasPrefix_def
                toLower_def)

lemma split_no_port: "net_SplitHostPort goNet ''1.2.3.4'' = Inl (Error ''missing port in address'')"
  by (simp add: goNet_def go_SplitHostPort_def lastIndex_def byteIndex_def upt_rec)

lemma string_22000:
  "URL_String goNet \<lparr>Scheme = ''tcp'', Opaque = [], User = None, Host = ''1.2.3.4:22000'',
                      Path = [], RawQuery = [], Fragment = []\<rparr> = ''tcp://1.2.3.4:22000''"
  by (simp add: goNet_def go_URL_String_def)

lemma decode_4000:
  "Announce_UnmarshalXDR xdrWire (announceA [''tcp://:4000''])
     = (\<lparr>Announce.Magic = 0x9D79BC40,
         This = \<lparr>ID = deviceA, Addresses = [''tcp://:4000''], Relays = []\<rparr>, Extra = []\<rparr>, None)"
  by code_simp

lemma decode_upper:
  "Announce_UnmarshalXDR xdrWire (announceA [''TCP://1.2.3.4:22000''])
     = (\<lparr>Announce.Magic = 0x9D79BC40,
         This = \<lparr>ID = deviceA, Addresses = [''TCP://1.2.3.4:22000''], Relays = []\<rparr>, Extra = []\<rparr>,
        None)"
  by code_simp

lemma decode_22000:
  "Announce_UnmarshalXDR xdrWire (announceA [''tcp://1.2.3.4:22000''])
     = (\<lparr>Announce.Magic = 0x9D79BC40,
         This = \<lparr>ID = deviceA, Addresses = [''tcp://1.2.3.4:22000''], Relays = []\<rparr>, Extra = []\<rparr>,
        None)"
  by code_simp

lemma decode_no_port:
  "Announce_UnmarshalXDR xdrWire (announceA [''tcp://1.2.3.4''])
     = (\<lparr>Announce.Magic = 0x9D79BC40,
         This = \<lparr>ID = deviceA, Addresses = [''tcp://1.2.3.4''], Relays = []\<rparr>, Extra = []\<rparr>, None)"
  by code_simp

lemma peer_To4: "To4 (IP peer) = [203, 0, 113, 5]"
  by (simp add: To4_def peer_def)

lemma ip_string_peer: "IP_String goNet [203, 0, 113, 5] = ''203.0.113.5''"
  by (simp add: goNet_def go_IP_String_def To4_def itod.simps)

text \<open>
  C7. An announced address with a non-empty host is claimed to be stored verbatim. The
  handler stores \<^verbatim>\<open>uri.String()\<close> of the parsed address, and passes over an address
  whose host part does not split into host and port. Announced to an empty registry
  from 203.0.113.5, the address \<^verbatim>\<open>TCP://1.2.3.4:22000\<close> (host 1.2.3.4) is stored as
  \<^verbatim>\<open>tcp://1.2.3.4:22000\<close>, and the address \<^verbatim>\<open>tcp://1.2.3.4\<close> (host 1.2.3.4, no port) is
  not stored.
\<close>

theorem announce_not_verbatim:
  "fst (get (fst (handleAnnounceV2 xdrWire goNet 100 [] peer (announceA [''TCP://1.2.3.4:22000''])
                    (initialVars defaultFlags))) deviceA)
     = [\<lparr>address.address = ''tcp://1.2.3.4:22000'', seen = 100\<rparr>]
   \<and> fst (get (fst (handleAnnounceV2 xdrWire goNet 100 [] peer (announceA [''tcp://1.2.3.4''])
                      (initialVars defaultFlags))) deviceA)
     = []"
proof -
  have absent: "db_Get [] deviceA = Inl ErrNotFound"
    by (simp add: db_Get_def)
  have ok: "(None :: error option) = None \<or> None = Some EOF"
    by simp
  have raw: "\<And>ss. deviceID xdrWire (ID (This \<lparr>Announce.Magic = 0x9D79BC40,
                 This = \<lparr>ID = deviceA, Addresses = ss, Relays = []\<rparr>, Extra = []\<rparr>)) = Inr deviceA"
    by (simp add: deviceID_def deviceA_def)
  have one: "\<And>s. Addresses (This \<lparr>Announce.Magic = 0x9D79BC40,
                 This = \<lparr>ID = deviceA, Addresses = [s], Relays = []\<rparr>, Extra = []\<rparr>) = [s]"
    by simp
  have "fst (get (fst (handleAnnounceV2 xdrWire goNet 100 [] peer (announceA [''TCP://1.2.3.4:22000''])
                    (initialVars defaultFlags))) deviceA)
     = [\<lparr>address.address = ''tcp://1.2.3.4:22000'', seen = 100\<rparr>]"
    by (simp add: announce_single_stored [OF decode_upper ok raw absent one]
                  announcedAddrs_single parse_upper split_22000 string_22000
             del: announcedAddrs.simps)
  moreover
  have "fst (get (fst (handleAnnounceV2 xdrWire goNet 100 [] peer (announceA [''tcp://1.2.3.4''])
                      (initialVars defaultFlags))) deviceA)
     = []"
    by (simp add: announce_single_stored [OF decode_no_port ok raw absent one]
                  announcedAddrs_single parse_no_port split_no_port
             del: announcedAddrs.simps)
  ultimately show ?thesis by simp
qed

lemma string_4000:
  "URL_String goNet \<lparr>Scheme = ''tcp'', Opaque = [], User = None, Host = ''203.0.113.5:4000'',
                      Path = [], RawQuery = [], Fragment = []\<rparr> = ''tcp://203.0.113.5:4000''"
  by (simp add: goNet_def go_URL_String_def)

lemma join_4000: "net_JoinHostPort goNet ''203.0.113.5'' ''4000'' = ''203.0.113.5:4000''"
  by (simp add: goNet_def go_JoinHostPort_def)

lemma peer6_ip:
  "(if To4 (IP peer6) = [] then To16 (IP peer6) else To4 (IP peer6))
     = [0x20, 0x01, 0x0d, 0xb8, 0, 0, 0, 0, 0, 0, 0, 0, 0, 0, 0, 1]"
  by (simp add: peer6_def To4_def To16_def v4InV6Prefix_def)

lemma ip_string_peer6:
  "IP_String goNet [0x20, 0x01, 0x0d, 0xb8, 0, 0, 0, 0, 0, 0, 0, 0, 0, 0, 0, 1] = ''2001:db8::1''"
  by (simp add: goNet_def go_IP_String_def To4_def v4InV6Prefix_def groups_def upt_rec
                zeroRun.simps render.simps appendHex.simps)

lemma join_4000_v6: "net_JoinHostPort goNet ''2001:db8::1'' ''4000'' = ''[2001:db8::1]:4000''"
  by (simp add: goNet_def go_JoinHostPort_def)

lemma string_4000_v6:
  "URL_String goNet \<lparr>Scheme = ''tcp'', Opaque = [], User = None, Host = ''[2001:db8::1]:4000'',
                      Path = [], RawQuery = [], Fragment = []\<rparr> = ''tcp://[2001:db8::1]:4000''"
  by (simp add: goNet_def go_URL_String_def)

lemma decode_two_ports:
  "Announce_UnmarshalXDR xdrWire (announceA [''tcp://1.2.3.4:9000'', ''tcp://1.2.3.4:9001''])
     = (\<lparr>Announce.Magic = 0x9D79BC40,
         This = \<lparr>ID = deviceA, Addresses = [''tcp://1.2.3.4:9000'', ''tcp://1.2.3.4:9001''],
                 Relays = []\<rparr>, Extra = []\<rparr>, None)"
  by code_simp

lemma announced_4000:
  "announced goNet [203, 0, 113, 5] 100 ''tcp://:4000''
     = [\<lparr>address.address = ''tcp://203.0.113.5:4000'', seen = 100\<rparr>]"
  by (simp add: announced_def parse_4000 split_4000 ip_string_peer join_4000 string_4000)

lemma announced_4000_v6:
  "announced goNet [0x20, 0x01, 0x0d, 0xb8, 0, 0, 0, 0, 0, 0, 0, 0, 0, 0, 0, 1] 100 ''tcp://:4000''
     = [\<lparr>address.address = ''tcp://[2001:db8::1]:4000'', seen = 100\<rparr>]"
  by (simp add: announced_def parse_4000 split_4000 ip_string_peer6 join_4000_v6 string_4000_v6)

lemma announced_22000:
  "announced goNet ip 100 ''tcp://1.2.3.4:22000''
     = [\<lparr>address.address = ''tcp://1.2.3.4:22000'', seen = 100\<rparr>]"
  by (simp add: announced_def parse_22000 split_22000 string_22000)

lemma announced_no_port: "announced goNet ip 100 ''tcp://1.2.3.4'' = []"
  by (simp add: announced_unparsed portNormal_no_port)

lemma announced_9000:
  "announced goNet ip 100 ''tcp://1.2.3.4:9000''
     = [\<lparr>address.address = ''tcp://1.2.3.4:9000'', seen = 100\<rparr>]"
  by (simp add: announced_def goNet_def go_url_Parse_def plain_def isLetter_def isDigit_def
                hasPrefix_def toLower_def go_SplitHostPort_def lastIndex_def byteIndex_def
                upt_rec go_URL_String_def)

lemma announced_9001:
  "announced goNet ip 100 ''tcp://1.2.3.4:9001''
     = [\<lparr>address.address = ''tcp://1.2.3.4:9001'', seen = 100\<rparr>]"
  by (simp add: announced_def goNet_def go_url_Parse_def plain_def isLetter_def isDigit_def
                hasPrefix_def toLower_def go_SplitHostPort_def lastIndex_def byteIndex_def
                upt_rec go_URL_String_def)

text \<open>
  C7, as the code has it. For every announce packet that decodes and carries a device
  id, and every state of the store: the addresses of the packet that parse as a URI
  whose host part splits into host and port are handed to \<^verbatim>\<open>update\<close>, in the order of
  the packet, each as the string of its URI: with the source IP (in IPv4 form when
  \<^verbatim>\<open>To4\<close> converts it, else in 16-byte form) joined with the announced port as the host
  part when the announced host is empty, so that \<^verbatim>\<open>tcp://:4000\<close> from 203.0.113.5
  becomes \<^verbatim>\<open>tcp://203.0.113.5:4000\<close>; with host and port unchanged when the host is not
  empty, which is the announced string whenever the library writes the URI back as it
  read it, as for \<^verbatim>\<open>tcp://1.2.3.4:22000\<close>. An address that does not parse, or whose
  host part does not split, is not handed on. What is stored for the device afterwards
  is these addresses merged into its stored list by \<^verbatim>\<open>update\<close> (by the merge rule of C2
  when they parse again, so that of two addresses with the same port-normalized form
  only the later one stays); for a device without a record and a packet with one
  address it is what is made of that address.
\<close>

theorem announce_fills_empty_host:
  assumes "Announce_UnmarshalXDR w buf = (pkt, derr)" and "derr = None \<or> derr = Some EOF"
    and "deviceID w (ID (This pkt)) = Inr devid"
    and "ip = (if To4 (IP addr) = [] then To16 (IP addr) else To4 (IP addr))"
    and "handed = concat (map (announced lib ip now) (Addresses (This pkt)))"
    and "stored = fst (get (fst (handleAnnounceV2 w lib now db addr buf g)) devid)"
  shows "fst (handleAnnounceV2 w lib now db addr buf g)
           = update lib db devid handed (Relays (This pkt))
     \<and> stored = mergeAddrs lib handed (fst (get db devid))
     \<and> ((\<forall>a\<in>set handed. portNormal lib (address.address a) \<noteq> None) \<longrightarrow>
            stored = foldl (mergeRule lib) (fst (get db devid)) handed)
     \<and> (db_Get db devid = Inl ErrNotFound \<and> Addresses (This pkt) = [s] \<longrightarrow>
            stored = announced lib ip now s)
     \<and> (\<forall>x uri port. url_Parse lib x = Inr uri \<and> net_SplitHostPort lib (Host uri) = Inr ([], port) \<longrightarrow>
            announced lib ip now x
              = [\<lparr>address.address =
                     URL_String lib (uri\<lparr>Host := net_JoinHostPort lib (IP_String lib ip) port\<rparr>),
                   seen = now\<rparr>])
     \<and> (\<forall>x uri host port. url_Parse lib x = Inr uri
            \<and> net_SplitHostPort lib (Host uri) = Inr (host, port) \<and> host \<noteq> [] \<longrightarrow>
            announced lib ip now x = [\<lparr>address.address = URL_String lib uri, seen = now\<rparr>]
            \<and> (URL_String lib uri = x \<longrightarrow>
                 announced lib ip now x = [\<lparr>address.address = x, seen = now\<rparr>]))
     \<and> (\<forall>x. (\<exists>e. url_Parse lib x = Inl e)
              \<or> (\<exists>uri e. url_Parse lib x = Inr uri \<and> net_SplitHostPort lib (Host uri) = Inl e) \<longrightarrow>
            announced lib ip now x = [])"
proof (intro conjI)
  note run = handleAnnounceV2_handed [OF assms(1-3), of lib now db addr g]
  show upd: "fst (handleAnnounceV2 w lib now db addr buf g)
               = update lib db devid handed (Relays (This pkt))"
    unfolding assms(4,5) by (simp add: run)
  show st: "stored = mergeAddrs lib handed (fst (get db devid))"
    unfolding assms(6) upd by (simp add: get_update)
  show "(\<forall>a\<in>set handed. portNormal lib (address.address a) \<noteq> None) \<longrightarrow>
          stored = foldl (mergeRule lib) (fst (get db devid)) handed"
    unfolding st by (simp add: mergeAddrs_foldl)
  show "db_Get db devid = Inl ErrNotFound \<and> Addresses (This pkt) = [s] \<longrightarrow>
          stored = announced lib ip now s"
  proof
    assume h: "db_Get db devid = Inl ErrNotFound \<and> Addresses (This pkt) = [s]"
    then have "handed = announced lib ip now s" and "fst (get db devid) = []"
      by (simp_all add: assms(5) get_absent)
    moreover have "mergeAddrs lib (announced lib ip now s) [] = announced lib ip now s"
      by (simp add: announced_def mergeAddr_Nil split: sum.splits prod.splits)
    ultimately show "stored = announced lib ip now s"
      unfolding st by simp
  qed
qed (auto simp: announced_def)

theorem announce_fills_empty_host_witness:
  "Announce_UnmarshalXDR xdrWire (announceA [''tcp://:4000''])
     = (\<lparr>Announce.Magic = 0x9D79BC40,
         This = \<lparr>ID = deviceA, Addresses = [''tcp://:4000''], Relays = []\<rparr>, Extra = []\<rparr>, None)
   \<and> deviceID xdrWire deviceA = Inr deviceA
   \<and> db_Get [] deviceA = Inl ErrNotFound
   \<and> To4 (IP peer) = [203, 0, 113, 5]
   \<and> url_Parse goNet ''tcp://:4000''
       = Inr \<lparr>Scheme = ''tcp'', Opaque = [], User = None, Host = '':4000'', Path = [],
              RawQuery = [], Fragment = []\<rparr>
   \<and> net_SplitHostPort goNet '':4000'' = Inr ([], ''4000'')
   \<and> fst (get (fst (handleAnnounceV2 xdrWire goNet 100 [] peer (announceA [''tcp://:4000''])
                      (initialVars defaultFlags))) deviceA)
       = [\<lparr>address.address = ''tcp://203.0.113.5:4000'', seen = 100\<rparr>]
   \<and> To4 (IP peer6) = []
   \<and> fst (get (fst (handleAnnounceV2 xdrWire goNet 100 [] peer6 (announceA [''tcp://:4000''])
                      (initialVars defaultFlags))) deviceA)
       = [\<lparr>address.address = ''tcp://[2001:db8::1]:4000'', seen = 100\<rparr>]
   \<and> url_Parse goNet ''tcp://1.2.3.4:22000''
       = Inr \<lparr>Scheme = ''tcp'', Opaque = [], User = None, Host = ''1.2.3.4:22000'', Path = [],
              RawQuery = [], Fragment = []\<rparr>
   \<and> net_SplitHostPort goNet ''1.2.3.4:22000'' = Inr (''1.2.3.4'', ''22000'')
   \<and> fst (get (fst (handleAnnounceV2 xdrWire goNet 100 [] peer (announceA [''tcp://1.2.3.4:22000''])
                      (initialVars defaultFlags))) deviceA)
       = [\<lparr>address.address = ''tcp://1.2.3.4:22000'', seen = 100\<rparr>]
   \<and> (\<exists>e. net_SplitHostPort goNet ''1.2.3.4'' = Inl e)
   \<and> fst (get (fst (handleAnnounceV2 xdrWire goNet 100 [] peer (announceA [''tcp://1.2.3.4''])
                      (initialVars defaultFlags))) deviceA)
       = []
   \<and> portNormal goNet ''tcp://1.2.3.4:9000'' \<noteq> None
   \<and> portNormal goNet ''tcp://1.2.3.4:9001'' = portNormal goNet ''tcp://1.2.3.4:9000''
   \<and> fst (get (fst (handleAnnounceV2 xdrWire goNet 100
                      [(deviceA, XDR \<lparr>addresses = [\<lparr>address.address = ''tcp://192.0.2.7:22000'',
                                                     seen = 50\<rparr>], relays = []\<rparr>)]
                      peer (announceA [''tcp://1.2.3.4:9000'', ''tcp://1.2.3.4:9001''])
                      (initialVars defaultFlags))) deviceA)
       = [\<lparr>address.address = ''tcp://192.0.2.7:22000'', seen = 50\<rparr>,
          \<lparr>address.address = ''tcp://1.2.3.4:9001'', seen = 100\<rparr>]"
proof -
  have absent: "db_Get [] deviceA = Inl ErrNotFound"
    by (simp add: db_Get_def)
  have ok: "(None :: error option) = None \<or> None = Some EOF"
    by simp
  have raw: "\<And>ss. deviceID xdrWire (ID (This \<lparr>Announce.Magic = 0x9D79BC40,
                 This = \<lparr>ID = deviceA, Addresses = ss, Relays = []\<rparr>, Extra = []\<rparr>)) = Inr deviceA"
    by (simp add: deviceID_def deviceA_def)
  have ip: "[203, 0, 113, 5] = (if To4 (IP peer) = [] then To16 (IP peer) else To4 (IP peer))"
    by (simp add: peer_To4)
  have v6: "To4 (IP peer6) = []"
    by (simp add: peer6_def To4_def v4InV6Prefix_def)
  have empty_host:
    "fst (get (fst (handleAnnounceV2 xdrWire goNet 100 [] peer (announceA [''tcp://:4000''])
                      (initialVars defaultFlags))) deviceA)
       = [\<lparr>address.address = ''tcp://203.0.113.5:4000'', seen = 100\<rparr>]"
    using announce_fills_empty_host [OF decode_4000 ok raw ip refl refl,
                                     of goNet 100 "[]" "initialVars defaultFlags" "''tcp://:4000''",
                                     THEN conjunct2, THEN conjunct2, THEN conjunct2, THEN conjunct1]
          absent
    by (simp add: announced_4000)
  have empty_host_v6:
    "fst (get (fst (handleAnnounceV2 xdrWire goNet 100 [] peer6 (announceA [''tcp://:4000''])
                      (initialVars defaultFlags))) deviceA)
       = [\<lparr>address.address = ''tcp://[2001:db8::1]:4000'', seen = 100\<rparr>]"
    using announce_fills_empty_host [OF decode_4000 ok raw peer6_ip [symmetric] refl refl,
                                     of goNet 100 "[]" "initialVars defaultFlags" "''tcp://:4000''",
                                     THEN conjunct2, THEN conjunct2, THEN conjunct2, THEN conjunct1]
          absent
    by (simp add: announced_4000_v6)
  have with_host:
    "fst (get (fst (handleAnnounceV2 xdrWire goNet 100 [] peer (announceA [''tcp://1.2.3.4:22000''])
                      (initialVars defaultFlags))) deviceA)
       = [\<lparr>address.address = ''tcp://1.2.3.4:22000'', seen = 100\<rparr>]"
    using announce_fills_empty_host [OF decode_22000 ok raw ip refl refl,
                                     of goNet 100 "[]" "initialVars defaultFlags"
                                        "''tcp://1.2.3.4:22000''",
                                     THEN conjunct2, THEN conjunct2, THEN conjunct2, THEN conjunct1]
          absent
    by (simp add: announced_22000)
  have dropped:
    "fst (get (fst (handleAnnounceV2 xdrWire goNet 100 [] peer (announceA [''tcp://1.2.3.4''])
                      (initialVars defaultFlags))) deviceA)
       = []"
    using announce_fills_empty_host [OF decode_no_port ok raw ip refl refl,
                                     of goNet 100 "[]" "initialVars defaultFlags" "''tcp://1.2.3.4''",
                                     THEN conjunct2, THEN conjunct2, THEN conjunct2, THEN conjunct1]
          absent
    by (simp add: announced_no_port)
  let ?old = "\<lparr>address.address = ''tcp://192.0.2.7:22000'', seen = 50\<rparr>"
  let ?db = "[(deviceA, XDR \<lparr>addresses = [?old], relays = []\<rparr>)]"
  have present: "fst (get ?db deviceA) = [?old]"
    by (simp add: get_def db_Get_def)
  have pn_old: "portNormal goNet ''tcp://192.0.2.7:22000'' = Some ''tcp://192.0.2.7:22000''"
    by (simp add: portNormal_def goNet_def go_url_Parse_def plain_def isLetter_def isDigit_def
                  hasPrefix_def toLower_def go_SplitHostPort_def lastIndex_def byteIndex_def
                  upt_rec go_JoinHostPort_def go_URL_String_def)
  have merged:
    "foldl (mergeRule goNet) [?old]
       [\<lparr>address.address = ''tcp://1.2.3.4:9000'', seen = 100\<rparr>,
        \<lparr>address.address = ''tcp://1.2.3.4:9001'', seen = 100\<rparr>]
       = [?old, \<lparr>address.address = ''tcp://1.2.3.4:9001'', seen = 100\<rparr>]"
    by (simp add: mergeRule_def portNormal_9000 portNormal_9001 pn_old upt_rec)
  have collide:
    "fst (get (fst (handleAnnounceV2 xdrWire goNet 100 ?db peer
                      (announceA [''tcp://1.2.3.4:9000'', ''tcp://1.2.3.4:9001''])
                      (initialVars defaultFlags))) deviceA)
       = [?old, \<lparr>address.address = ''tcp://1.2.3.4:9001'', seen = 100\<rparr>]"
    using announce_fills_empty_host [OF decode_two_ports ok raw ip refl refl,
                                     of goNet 100 ?db "initialVars defaultFlags",
                                     THEN conjunct2, THEN conjunct2, THEN conjunct1]
          merged
    by (simp add: announced_9000 announced_9001 portNormal_9000 portNormal_9001 present)
  show ?thesis
    using decode_4000 absent peer_To4 parse_4000 split_4000 empty_host v6 empty_host_v6
          parse_22000 split_22000 with_host split_no_port dropped collide
          portNormal_9000 portNormal_9001
    by (simp add: deviceA_raw)
qed

section \<open>Addresses that fail to parse\<close>




section \<open>Properties of the receive loop\<close>

text \<open>With a source address and a configuration for which a bucket can be made,
  \<^verbatim>\<open>limit\<close> returns.\<close>

lemma limit_returns:
  assumes "0 < limitAvg fl" and "limitAvg fl \<le> 10 * Second" and "0 < limitBurst fl"
  shows "\<exists>r g'. limit lib fl now (Some a) g = Some (r, g')"
proof (cases "map_of (ll (limiter g)) (IP_String lib (IP a))")
  case None
  from limit_new_source [OF None assms] show ?thesis by blast
next
  case (Some bkt)
  then show ?thesis
    by (cases "TakeAvailable now bkt 1") (auto simp: limit_def lru_Get_def Let_def)
qed

text \<open>
  C9. After startup, no branch of the path of a datagram is claimed to end the process,
  the startup failures being the only fatal ones. A read error of the socket ends it:
  \<^verbatim>\<open>ReadFromUDP\<close> returns the error with a \<^verbatim>\<open>nil\<close> source, on which \<^verbatim>\<open>limit\<close> panics,
  and with a source present the loop reaches \<^verbatim>\<open>log.Fatal(err)\<close>.
\<close>

theorem read_error_is_fatal:
  "serve xdrWire goNet defaultFlags \<lparr>timeNow = 0, unixNow = 0\<rparr> None
     \<lparr>payload = [], source = None, readErr = Some (Error ''use of closed network connection'')\<rparr>
     (initialServer defaultFlags) = None
   \<and> serve xdrWire goNet defaultFlags \<lparr>timeNow = 0, unixNow = 0\<rparr> None
       \<lparr>payload = [], source = Some peer,
        readErr = Some (Error ''use of closed network connection'')\<rparr>
       (initialServer defaultFlags) = None"
proof -
  have "\<exists>g'. limit goNet defaultFlags 0 (Some peer) (vars (initialServer defaultFlags))
               = Some (False, g')"
    using limit_new_source [of "vars (initialServer defaultFlags)" goNet peer defaultFlags 0]
    by (simp add: initialServer_def initial_cache_empty defaultFlags_def Second_def)
  then show ?thesis
    by (auto simp: serve_def limit_def)
qed

text \<open>
  C9, as the code has it. For every datagram that \<^verbatim>\<open>ReadFromUDP\<close> returns without an
  error, with its source address, and a limiter configuration for which a bucket can be
  made (as in C5), one iteration of the receive loop ends with the server running:
  whatever the decoders, the device id decoding, the lookup in the store, the encoder
  and the write to the socket return, the packet is dropped or logged and the loop goes
  on. A read error ends the process, as the startup failures do.
\<close>

theorem serve_continues:
  assumes "readErr rcv = None" and "source rcv = Some a"
    and "0 < limitAvg fl" and "limitAvg fl \<le> 10 * Second" and "0 < limitBurst fl"
  shows "\<exists>s'. serve w lib fl clk werr rcv s = Some s'"
proof -
  from limit_returns [OF assms(3-5)] obtain r g' where
    "limit lib fl (timeNow clk) (Some a) (vars s) = Some (r, g')"
    by blast
  with assms(1,2) show ?thesis
    by (cases r) (simp_all add: serve_def Let_def split: prod.splits)
qed

theorem serve_continues_witness:
  "readErr \<lparr>payload = take 10 queryA, source = Some peer, readErr = None\<rparr> = None
   \<and> source \<lparr>payload = take 10 queryA, source = Some peer, readErr = None\<rparr> = Some peer
   \<and> 0 < limitAvg defaultFlags \<and> limitAvg defaultFlags \<le> 10 * Second
   \<and> 0 < limitBurst defaultFlags
   \<and> (\<exists>s'. serve xdrWire goNet defaultFlags \<lparr>timeNow = 0, unixNow = 0\<rparr>
               (Some (Error ''network is unreachable''))
               \<lparr>payload = take 10 queryA, source = Some peer, readErr = None\<rparr>
               (initialServer defaultFlags) = Some s')"
  using serve_continues [of "\<lparr>payload = take 10 queryA, source = Some peer, readErr = None\<rparr>"
                            peer defaultFlags xdrWire goNet "\<lparr>timeNow = 0, unixNow = 0\<rparr>"
                            "Some (Error ''network is unreachable'')" "initialServer defaultFlags"]
  by (simp add: defaultFlags_def Second_def)

end
